theory Spec2Isabelle
  imports Complex_Main "HOL-Library.Sublist"
begin

section \<open>Saved-Hub: a Streamlit dashboard for saved YouTube and Reddit items\<close>

text \<open>
  The program is one script, \<^verbatim>\<open>Main.py\<close>, which the hosting framework executes from top
  to bottom on every page load, redirect and button press (a render pass) against a
  session state that outlives the pass. The embedding follows the script block by block:
  every block is a function from the world (session state, query parameters, the
  elements drawn so far, the vendor calls made so far) to a control outcome and the new
  world.

  What lies outside the script is a parameter of the model, never a definition of it:
  the vendors' answers (token endpoint, videos-list endpoint, Reddit listing), the
  readings of the wall clock, and the text Python prints for a value that is not a
  string. Clock readings are real numbers (the script's \<^verbatim>\<open>time.time()\<close> floats, without
  rounding). Object constructors of the vendor libraries (\<^verbatim>\<open>praw.Reddit\<close>,
  \<^verbatim>\<open>googleapiclient.discovery.build\<close>) build a value and do not fail; calls that reach
  a vendor may raise. The temporary file that \<^verbatim>\<open>youtube_login\<close> writes and unlinks is
  not part of the model.
\<close>

subsection \<open>Python values and exceptions\<close>

text \<open>
  Every exception below is a subclass of Python's \<^verbatim>\<open>Exception\<close>, so
  \<^verbatim>\<open>except Exception\<close> catches each of them. The framework's rerun and stop signals are
  not: they are control outcomes (\<open>ctl\<close> below) and pass through such a handler.
\<close>

datatype exn =
  HttpError string
  | KeyError string
  | TypeError string
  | AttributeError string
  | FileNotFoundError string
  | OtherError string

text \<open>
  \<^verbatim>\<open>str(e)\<close>: a \<^verbatim>\<open>KeyError\<close> prints the repr of its argument, the others their
  message. The repr is the argument between single quotes, for an argument without a
  single quote, a backslash or a control character; such are the keys this script
  subscripts with and the sentences the framework raises.
\<close>

fun exn_str :: "exn \<Rightarrow> string" where
  "exn_str (KeyError k) = [CHR 0x27] @ k @ [CHR 0x27]"
| "exn_str (HttpError m) = m"
| "exn_str (TypeError m) = m"
| "exn_str (AttributeError m) = m"
| "exn_str (FileNotFoundError m) = m"
| "exn_str (OtherError m) = m"

definition ebind :: "exn + 'a \<Rightarrow> ('a \<Rightarrow> exn + 'b) \<Rightarrow> exn + 'b" where
  "ebind m f = (case m of Inl e \<Rightarrow> Inl e | Inr x \<Rightarrow> f x)"

text \<open>
  A decoded JSON document, as \<^verbatim>\<open>request.execute()\<close> returns it. An object is the list
  of its members (keys distinct).
\<close>

datatype json =
  JNull
  | JBool bool
  | JNum int
  | JStr string
  | JArr "json list"
  | JObj "(string \<times> json) list"

text \<open>\<^verbatim>\<open>v[k]\<close> for a string key \<open>k\<close>.\<close>

fun py_getitem :: "json \<Rightarrow> string \<Rightarrow> exn + json" where
  "py_getitem (JObj kvs) k =
     (case map_of kvs k of Some v \<Rightarrow> Inr v | None \<Rightarrow> Inl (KeyError k))"
| "py_getitem (JStr s) k = Inl (TypeError ''string indices must be integers'')"
| "py_getitem (JArr xs) k = Inl (TypeError ''list indices must be integers or slices, not str'')"
| "py_getitem v k = Inl (TypeError ''object is not subscriptable'')"

text \<open>\<^verbatim>\<open>v.get(k, d)\<close>: only a dict has the method.\<close>

fun py_get :: "json \<Rightarrow> string \<Rightarrow> json \<Rightarrow> exn + json" where
  "py_get (JObj kvs) k d = (case map_of kvs k of Some v \<Rightarrow> Inr v | None \<Rightarrow> Inr d)"
| "py_get v k d = Inl (AttributeError ''object has no attribute get'')"

text \<open>
  \<^verbatim>\<open>for item in v\<close>: a list yields its elements, a dict its keys, a string its
  characters; nothing else is iterable.
\<close>

fun py_iter :: "json \<Rightarrow> exn + json list" where
  "py_iter (JArr xs) = Inr xs"
| "py_iter (JObj kvs) = Inr (map (\<lambda>kv. JStr (fst kv)) kvs)"
| "py_iter (JStr s) = Inr (map (\<lambda>c. JStr [c]) s)"
| "py_iter v = Inl (TypeError ''object is not iterable'')"

subsection \<open>Configuration (lines 41-48)\<close>

text \<open>
  \<^verbatim>\<open>st.secrets\<close> is the framework's view of the secrets file: a table of tables of
  strings, or no file at all (\<open>None\<close>). Subscripting it without a file raises
  \<^verbatim>\<open>FileNotFoundError\<close>. Subscripting it, or one of its tables, with a key that is
  not there raises a \<^verbatim>\<open>KeyError\<close> whose argument is not the key but a sentence of the
  framework about the key. The two texts belong to the framework, so they are
  parameters: \<open>sentence\<close> maps the key to the sentence, \<open>nofile\<close> is the message of the
  \<^verbatim>\<open>FileNotFoundError\<close>.
\<close>

type_synonym secrets_file = "string \<rightharpoonup> (string \<rightharpoonup> string)"

type_synonym secrets = "secrets_file option"

record config =
  youtube_client_secret_json :: string
  reddit_client_id :: string
  reddit_client_secret :: string
  reddit_user_agent :: string

definition lookup :: "(string \<Rightarrow> string) \<Rightarrow> (string \<rightharpoonup> 'a) \<Rightarrow> string \<Rightarrow> exn + 'a" where
  "lookup sentence m k =
     (case m k of None \<Rightarrow> Inl (KeyError (sentence k)) | Some v \<Rightarrow> Inr v)"

text \<open>\<^verbatim>\<open>st.secrets[table][k]\<close>.\<close>

definition secret ::
    "(string \<Rightarrow> string) \<Rightarrow> string \<Rightarrow> secrets \<Rightarrow> string \<Rightarrow> string \<Rightarrow> exn + string" where
  "secret sentence nofile sec table k =
     (case sec of
        None \<Rightarrow> Inl (FileNotFoundError nofile)
      | Some file \<Rightarrow> ebind (lookup sentence file table) (\<lambda>t. lookup sentence t k))"

text \<open>The body of the \<^verbatim>\<open>try\<close> of lines 41-45.\<close>

definition load_secrets ::
    "(string \<Rightarrow> string) \<Rightarrow> string \<Rightarrow> secrets \<Rightarrow> exn + config" where
  "load_secrets sentence nofile sec =
     ebind (secret sentence nofile sec ''youtube'' ''client_secret_json'') (\<lambda>yt_json.
     ebind (secret sentence nofile sec ''reddit'' ''client_id'') (\<lambda>cid.
     ebind (secret sentence nofile sec ''reddit'' ''client_secret'') (\<lambda>csecret.
     ebind (secret sentence nofile sec ''reddit'' ''user_agent'') (\<lambda>agent.
       Inr \<lparr>youtube_client_secret_json = yt_json, reddit_client_id = cid,
            reddit_client_secret = csecret, reddit_user_agent = agent\<rparr>))))"

definition missing_secret_message :: "exn \<Rightarrow> string" where
  "missing_secret_message e =
     ''Missing secret: '' @ exn_str e @
     ''. Please configure secrets.toml with YouTube and Reddit credentials.''"

subsection \<open>Session state (lines 15-30) and the world of a render pass\<close>

datatype credentials = Credentials string

datatype youtube_api = YoutubeApi credentials

datatype oauth_flow = Flow string "string list" "string option"

datatype reddit_client = Reddit string string string string "string option"

record video =
  title :: json
  url :: string
  thumbnail :: json

record post =
  post_title :: string
  post_url :: string
  subreddit :: string

text \<open>
  The keys of \<^verbatim>\<open>st.session_state\<close>. The first eight are set by lines 15-30 whenever
  they are absent, so they are present from the first pass on; \<^verbatim>\<open>oauth_state\<close> and
  \<^verbatim>\<open>oauth_flow\<close> exist only once \<^verbatim>\<open>youtube_login\<close> has run (\<open>None\<close>: the key is
  absent, and reading it raises \<^verbatim>\<open>AttributeError\<close>).
\<close>

record session =
  youtube_credentials :: "credentials option"
  reddit_access_token :: "string option"
  youtube_api :: "youtube_api option"
  reddit :: "reddit_client option"
  youtube_videos :: "video list"
  reddit_posts :: "post list"
  last_sync_time :: real
  sync_interval :: real
  oauth_state :: "string option"
  oauth_flow :: "oauth_flow option"

definition fresh_session :: session where
  "fresh_session =
     \<lparr>youtube_credentials = None, reddit_access_token = None, youtube_api = None,
      reddit = None, youtube_videos = [], reddit_posts = [], last_sync_time = 0,
      sync_interval = 60, oauth_state = None, oauth_flow = None\<rparr>"

datatype ui =
  Title string
  | Header string
  | SidebarHeader string
  | Tabs "string list"
  | Write string
  | Error string
  | Markdown string
  | Image json nat
  | Button string

datatype call =
  FetchToken oauth_flow string
  | Authorize reddit_client string
  | VideosList youtube_api
  | SavedList reddit_client

text \<open>
  The world of a pass: the session state and the query parameters, which the script
  reads and writes, and two records of what it did, the elements it drew (\<open>screen\<close>,
  in order) and the vendor calls it made (\<open>calls\<close>, in order). The script never reads
  the two records.
\<close>

record world =
  session :: session
  query_params :: "string \<rightharpoonup> string"
  screen :: "ui list"
  calls :: "call list"

datatype saved_item = Submission string string string | Comment string

datatype button = SyncNow | LogoutYouTube | LogoutReddit

text \<open>
  What the world outside the script answers during one render pass: the vendors, the
  clock at each of the script's \<^verbatim>\<open>time.time()\<close> calls, Python's printing, and the
  two texts of the framework's secrets store.
  \<open>videos_list\<close> is the request \<^verbatim>\<open>videos().list(part="snippet", myRating="like",
  maxResults=10).execute()\<close> and \<open>saved_listing\<close> is \<^verbatim>\<open>user.me().saved(limit=10)\<close>
  read to its end; \<open>time_callback\<close>, \<open>time_sync\<close>, \<open>time_sync_now\<close> are the
  readings of line 157 when \<^verbatim>\<open>sync_content\<close> is called from a callback handler, from
  line 173 and from line 210, and \<open>time_autosync\<close> is the reading of line 227.
\<close>

record env =
  parse_client_secrets :: "string \<Rightarrow> exn option"
  authorization_url :: "oauth_flow \<Rightarrow> string \<Rightarrow> string \<Rightarrow> string \<times> string"
  fetch_token :: "oauth_flow \<Rightarrow> string \<Rightarrow> exn + credentials"
  reddit_auth_url :: "reddit_client \<Rightarrow> string list \<Rightarrow> string \<Rightarrow> string \<Rightarrow> string"
  authorize :: "reddit_client \<Rightarrow> string \<Rightarrow> exn option"
  videos_list :: "youtube_api \<Rightarrow> exn + json"
  saved_listing :: "reddit_client \<Rightarrow> exn + saved_item list"
  py_str :: "json \<Rightarrow> string"
  ctime :: "real \<Rightarrow> string"
  missing_key_sentence :: "string \<Rightarrow> string"
  no_secrets_message :: string
  time_callback :: real
  time_sync :: real
  time_sync_now :: real
  time_autosync :: real

text \<open>
  How a block ends: it falls through to the next statement, raises, or the framework
  stops the pass (\<^verbatim>\<open>st.rerun()\<close>, \<^verbatim>\<open>st.stop()\<close>). An exception that nothing in
  the script catches ends the pass; what the framework shows for it is not an element
  the script draws and is not part of \<open>screen\<close>.
\<close>

datatype ctl = Continue | Raised exn | Rerun | Stop

type_synonym block = "world \<Rightarrow> ctl \<times> world"

definition and_then :: "block \<Rightarrow> block \<Rightarrow> block" where
  "and_then f g w = (case f w of (Continue, w') \<Rightarrow> g w' | (c, w') \<Rightarrow> (c, w'))"

definition draw :: "ui \<Rightarrow> world \<Rightarrow> world" where
  "draw u w = w\<lparr>screen := screen w @ [u]\<rparr>"

definition called :: "call \<Rightarrow> world \<Rightarrow> world" where
  "called c w = w\<lparr>calls := calls w @ [c]\<rparr>"

definition format_value :: "env \<Rightarrow> json \<Rightarrow> string" where
  "format_value env v = (case v of JStr s \<Rightarrow> s | _ \<Rightarrow> py_str env v)"

subsection \<open>Content fetchers (lines 56-95)\<close>

definition get_youtube_api :: "credentials \<Rightarrow> youtube_api" where
  "get_youtube_api c = YoutubeApi c"

text \<open>One entry of the \<^verbatim>\<open>videos\<close> list; the dict display evaluates its values in order.\<close>

definition make_video :: "env \<Rightarrow> json \<Rightarrow> exn + video" where
  "make_video env item =
     ebind (py_getitem item ''snippet'') (\<lambda>sn1.
     ebind (py_getitem sn1 ''title'') (\<lambda>t.
     ebind (py_getitem item ''id'') (\<lambda>i.
     ebind (py_getitem item ''snippet'') (\<lambda>sn2.
     ebind (py_getitem sn2 ''thumbnails'') (\<lambda>ths.
     ebind (py_getitem ths ''default'') (\<lambda>d.
     ebind (py_getitem d ''url'') (\<lambda>u.
       Inr \<lparr>title = t, url = ''https://www.youtube.com/watch?v='' @ format_value env i,
            thumbnail = u\<rparr>)))))))"

fun collect_videos :: "env \<Rightarrow> json list \<Rightarrow> video list \<Rightarrow> exn + video list" where
  "collect_videos env [] videos = Inr videos"
| "collect_videos env (item # items) videos =
     (case make_video env item of
        Inl e \<Rightarrow> Inl e
      | Inr v \<Rightarrow> collect_videos env items (videos @ [v]))"

text \<open>The body of the \<^verbatim>\<open>try\<close> of \<^verbatim>\<open>fetch_youtube_saved_videos\<close> (lines 65-76).\<close>

definition youtube_request :: "env \<Rightarrow> youtube_api \<Rightarrow> exn + video list" where
  "youtube_request env api =
     ebind (videos_list env api) (\<lambda>response.
     ebind (py_get response ''items'' (JArr [])) (\<lambda>items.
     ebind (py_iter items) (\<lambda>xs. collect_videos env xs [])))"

text \<open>Only \<^verbatim>\<open>googleapiclient.errors.HttpError\<close> is caught (line 77).\<close>

definition fetch_youtube_saved_videos ::
    "env \<Rightarrow> youtube_api \<Rightarrow> world \<Rightarrow> (exn + video list) \<times> world" where
  "fetch_youtube_saved_videos env api w =
     (case youtube_request env api of
        Inr videos \<Rightarrow> (Inr videos, called (VideosList api) w)
      | Inl (HttpError m) \<Rightarrow>
          (Inr [], draw (Error (''Error fetching YouTube videos: '' @ exn_str (HttpError m)))
                     (called (VideosList api) w))
      | Inl e \<Rightarrow> (Inl e, called (VideosList api) w))"

text \<open>
  The Reddit listing is lazy; an exception raised while it is read discards the posts
  gathered so far, so the listing is either all of its items or the exception.
\<close>

fun collect_posts :: "saved_item list \<Rightarrow> post list \<Rightarrow> post list" where
  "collect_posts [] saved_posts = saved_posts"
| "collect_posts (Submission t p sr # items) saved_posts =
     collect_posts items (saved_posts @ [\<lparr>post_title = t, post_url = p, subreddit = sr\<rparr>])"
| "collect_posts (Comment b # items) saved_posts = collect_posts items saved_posts"

definition fetch_reddit_saved_posts ::
    "env \<Rightarrow> reddit_client \<Rightarrow> world \<Rightarrow> post list \<times> world" where
  "fetch_reddit_saved_posts env r w =
     (case saved_listing env r of
        Inr items \<Rightarrow> (collect_posts items [], called (SavedList r) w)
      | Inl e \<Rightarrow>
          ([], draw (Error (''Error fetching Reddit posts: '' @ exn_str e))
                 (called (SavedList r) w)))"

subsection \<open>Sync scheduler (lines 155-163)\<close>

text \<open>Lines 159-160: the YouTube list is replaced when an API client is held.\<close>

definition refresh_youtube :: "env \<Rightarrow> world \<Rightarrow> (exn + unit) \<times> world" where
  "refresh_youtube env w =
     (case youtube_api (session w) of
        None \<Rightarrow> (Inr (), w)
      | Some api \<Rightarrow>
          (case fetch_youtube_saved_videos env api w of
             (Inl e, w1) \<Rightarrow> (Inl e, w1)
           | (Inr videos, w1) \<Rightarrow>
               (Inr (), w1\<lparr>session := (session w1)\<lparr>youtube_videos := videos\<rparr>\<rparr>)))"

text \<open>Lines 161-162: the Reddit list is replaced when a Reddit client is held.\<close>

definition refresh_reddit :: "env \<Rightarrow> world \<Rightarrow> world" where
  "refresh_reddit env w =
     (case reddit (session w) of
        None \<Rightarrow> w
      | Some r \<Rightarrow>
          (case fetch_reddit_saved_posts env r w of
             (posts, w1) \<Rightarrow> w1\<lparr>session := (session w1)\<lparr>reddit_posts := posts\<rparr>\<rparr>))"

definition stale :: "real \<Rightarrow> session \<Rightarrow> bool" where
  "stale current_time s = (current_time - last_sync_time s \<ge> sync_interval s)"

definition sync_content :: "env \<Rightarrow> real \<Rightarrow> block" where
  "sync_content env current_time w =
     (if stale current_time (session w) then
        (case refresh_youtube env w of
           (Inl e, w1) \<Rightarrow> (Raised e, w1)
         | (Inr u, w1) \<Rightarrow>
             (let w2 = refresh_reddit env w1
              in (Continue, w2\<lparr>session := (session w2)\<lparr>last_sync_time := current_time\<rparr>\<rparr>)))
      else (Continue, w))"

subsection \<open>Login links and OAuth callbacks (lines 97-153)\<close>

definition YOUTUBE_SCOPES :: "string list" where
  "YOUTUBE_SCOPES = [''https://www.googleapis.com/auth/youtube.readonly'']"

definition REDDIT_REDIRECT_URI :: string where
  "REDDIT_REDIRECT_URI = ''http://localhost:8501''"

definition youtube_login :: "config \<Rightarrow> env \<Rightarrow> block" where
  "youtube_login cfg env w =
     (case parse_client_secrets env (youtube_client_secret_json cfg) of
        Some e \<Rightarrow> (Raised e, w)
      | None \<Rightarrow>
          (let flow = Flow (youtube_client_secret_json cfg) YOUTUBE_SCOPES
                        (Some ''http://localhost:8501'');
               link = authorization_url env flow ''offline'' ''true'';
               w1 = w\<lparr>session := (session w)\<lparr>oauth_state := Some (snd link),
                                               oauth_flow := Some flow\<rparr>\<rparr>
           in (Continue, draw (Markdown (''[Login to YouTube]('' @ fst link @ '')'')) w1)))"

definition new_reddit :: "config \<Rightarrow> reddit_client" where
  "new_reddit cfg =
     Reddit (reddit_client_id cfg) (reddit_client_secret cfg) REDDIT_REDIRECT_URI
       (reddit_user_agent cfg) None"

fun authorized :: "reddit_client \<Rightarrow> string \<Rightarrow> reddit_client" where
  "authorized (Reddit cid csecret uri agent a) code = Reddit cid csecret uri agent (Some code)"

definition reddit_login :: "config \<Rightarrow> env \<Rightarrow> block" where
  "reddit_login cfg env w =
     (Continue,
      draw (Markdown (''[Login to Reddit]('' @
                      reddit_auth_url env (new_reddit cfg) [''identity'', ''read'', ''save'']
                        ''uniqueKey'' ''temporary'' @
                      '')'')) w)"

text \<open>
  Lines 125-135. Nothing in the function catches an exception: a missing
  \<^verbatim>\<open>oauth_state\<close> key, a failed token exchange and an exception out of
  \<^verbatim>\<open>sync_content\<close> all leave it.
\<close>

definition handle_youtube_callback :: "env \<Rightarrow> block" where
  "handle_youtube_callback env w =
     (case (query_params w ''code'', query_params w ''state'') of
        (Some code, Some st) \<Rightarrow>
          (case oauth_state (session w) of
             None \<Rightarrow> (Raised (AttributeError ''oauth_state''), w)
           | Some expected \<Rightarrow>
               if st = expected then
                 (case oauth_flow (session w) of
                    None \<Rightarrow> (Raised (AttributeError ''oauth_flow''), w)
                  | Some flow \<Rightarrow>
                      (case fetch_token env flow code of
                         Inl e \<Rightarrow> (Raised e, called (FetchToken flow code) w)
                       | Inr creds \<Rightarrow>
                           (let w1 = called (FetchToken flow code) w;
                                w2 = w1\<lparr>session := (session w1)
                                          \<lparr>youtube_credentials := Some creds,
                                           youtube_api := Some (get_youtube_api creds)\<rparr>,
                                        query_params := Map.empty\<rparr>
                            in and_then (sync_content env (time_callback env))
                                 (\<lambda>w3. (Rerun, w3)) w2)))
               else (Continue, w))
      | _ \<Rightarrow> (Continue, w))"

text \<open>
  Lines 137-153. The \<^verbatim>\<open>try\<close> spans the exchange, the sync and the rerun; its handler
  catches every exception raised there, and the rerun signal passes through it.
\<close>

definition handle_reddit_callback :: "config \<Rightarrow> env \<Rightarrow> block" where
  "handle_reddit_callback cfg env w =
     (case query_params w ''code'' of
        None \<Rightarrow> (Continue, w)
      | Some code \<Rightarrow>
          (case (case authorize env (new_reddit cfg) code of
                   Some e \<Rightarrow> (Raised e, called (Authorize (new_reddit cfg) code) w)
                 | None \<Rightarrow>
                     (let w1 = called (Authorize (new_reddit cfg) code) w;
                          w2 = w1\<lparr>session := (session w1)
                                    \<lparr>reddit := Some (authorized (new_reddit cfg) code)\<rparr>,
                                  query_params := Map.empty\<rparr>
                      in and_then (sync_content env (time_callback env))
                           (\<lambda>w3. (Rerun, w3)) w2))
           of
             (Raised e, w') \<Rightarrow>
               (Continue, draw (Error (''Reddit login failed: '' @ exn_str e)) w')
           | r \<Rightarrow> r))"

subsection \<open>View and controls (lines 165-227)\<close>

fun draw_videos :: "env \<Rightarrow> video list \<Rightarrow> world \<Rightarrow> world" where
  "draw_videos env [] w = w"
| "draw_videos env (v # vs) w =
     draw_videos env vs
       (draw (Markdown (''['' @ format_value env (title v) @ '']('' @ url v @ '')''))
          (draw (Image (thumbnail v) 120) w))"

fun draw_posts :: "post list \<Rightarrow> world \<Rightarrow> world" where
  "draw_posts [] w = w"
| "draw_posts (p # ps) w =
     draw_posts ps
       (draw (Markdown (''[Link](https://reddit.com'' @ post_url p @ '')''))
          (draw (Markdown (''**'' @ post_title p @ ''** (r/'' @ subreddit p @ '')'')) w))"

definition last_synced :: "env \<Rightarrow> world \<Rightarrow> world" where
  "last_synced env w =
     draw (Write (''Last synced: '' @ ctime env (last_sync_time (session w)))) w"

definition youtube_tab :: "config \<Rightarrow> env \<Rightarrow> block" where
  "youtube_tab cfg env w =
     (let w1 = draw (Header ''YouTube Saved Videos'') w in
      if youtube_credentials (session w1) = None then
        youtube_login cfg env
          (draw (Write ''Please log in to view your saved YouTube videos.'') w1)
      else
        (Continue,
         last_synced env
           (if youtube_videos (session w1) \<noteq> [] then
              draw_videos env (youtube_videos (session w1)) w1
            else draw (Write ''No saved videos found or an error occurred.'') w1)))"

definition reddit_tab :: "config \<Rightarrow> env \<Rightarrow> block" where
  "reddit_tab cfg env w =
     (let w1 = draw (Header ''Reddit Saved Posts'') w in
      if reddit (session w1) = None then
        reddit_login cfg env
          (draw (Write ''Please log in to view your saved Reddit posts.'') w1)
      else
        (Continue,
         last_synced env
           (if reddit_posts (session w1) \<noteq> [] then
              draw_posts (reddit_posts (session w1)) w1
            else draw (Write ''No saved posts found or an error occurred.'') w1)))"

text \<open>Lines 207-211: the manual sync zeroes the timestamp, evaluates the scheduler, reruns.\<close>

definition sync_now :: "env \<Rightarrow> button option \<Rightarrow> block" where
  "sync_now env clicked w =
     (let w1 = draw (Button ''Sync Now'') (draw (SidebarHeader ''Controls'') w) in
      if clicked = Some SyncNow then
        and_then (sync_content env (time_sync_now env)) (\<lambda>w3. (Rerun, w3))
          (w1\<lparr>session := (session w1)\<lparr>last_sync_time := 0\<rparr>\<rparr>)
      else (Continue, w1))"

text \<open>Lines 216-218 and 221-222: what a pressed logout button assigns.\<close>

definition logout_youtube :: "session \<Rightarrow> session" where
  "logout_youtube s = s\<lparr>youtube_credentials := None, youtube_api := None, youtube_videos := []\<rparr>"

definition logout_reddit :: "session \<Rightarrow> session" where
  "logout_reddit s = s\<lparr>reddit := None, reddit_posts := []\<rparr>"

text \<open>
  Lines 213-223. A logout button exists only while its provider is logged in, and the
  rerun after the YouTube logout ends the pass before the Reddit button is reached.
\<close>

definition logout_controls :: "button option \<Rightarrow> block" where
  "logout_controls clicked w =
     (if youtube_credentials (session w) \<noteq> None \<or> reddit (session w) \<noteq> None then
        (let w1 = draw (SidebarHeader ''Logout'') w;
             w2 = (if youtube_credentials (session w1) \<noteq> None
                   then draw (Button ''Logout YouTube'') w1 else w1)
         in if youtube_credentials (session w1) \<noteq> None \<and> clicked = Some LogoutYouTube then
              (Rerun, w2\<lparr>session := logout_youtube (session w2)\<rparr>)
            else
              (let w3 = (if reddit (session w2) \<noteq> None
                         then draw (Button ''Logout Reddit'') w2 else w2)
               in if reddit (session w2) \<noteq> None \<and> clicked = Some LogoutReddit then
                    (Rerun, w3\<lparr>session := logout_reddit (session w3)\<rparr>)
                  else (Continue, w3)))
      else (Continue, w))"

text \<open>Lines 225-227: with a provider logged in and the interval elapsed, the pass asks for a rerun.\<close>

definition auto_sync :: "env \<Rightarrow> block" where
  "auto_sync env w =
     (if youtube_credentials (session w) \<noteq> None \<or> reddit (session w) \<noteq> None then
        (if stale (time_autosync env) (session w) then (Rerun, w) else (Continue, w))
      else (Continue, w))"

text \<open>Lines 165-227, once the configuration is loaded.\<close>

definition main_app :: "config \<Rightarrow> env \<Rightarrow> button option \<Rightarrow> block" where
  "main_app cfg env clicked =
     and_then (\<lambda>w. (Continue, draw (Title ''Saved Content Viewer'') w))
    (and_then (handle_youtube_callback env)
    (and_then (handle_reddit_callback cfg env)
    (and_then (sync_content env (time_sync env))
    (and_then (\<lambda>w. (Continue, draw (Tabs [''YouTube'', ''Reddit'']) w))
    (and_then (youtube_tab cfg env)
    (and_then (reddit_tab cfg env)
    (and_then (sync_now env clicked)
    (and_then (logout_controls clicked)
              (auto_sync env)))))))))"

text \<open>
  One render pass (the whole script): the configuration is loaded first, and a
  \<^verbatim>\<open>KeyError\<close> stops the pass with one error element (lines 41-48); any other
  exception of the lookup, the \<^verbatim>\<open>FileNotFoundError\<close> among them, leaves the script.
  Nothing is drawn before: \<^verbatim>\<open>st.set_page_config\<close> sets the page title and layout,
  and lines 15-30 only fill in absent session keys.
\<close>

definition run_script :: "secrets \<Rightarrow> env \<Rightarrow> button option \<Rightarrow> block" where
  "run_script sec env clicked w =
     (case load_secrets (missing_key_sentence env) (no_secrets_message env) sec of
        Inl (KeyError k) \<Rightarrow> (Stop, draw (Error (missing_secret_message (KeyError k))) w)
      | Inl e \<Rightarrow> (Raised e, w)
      | Inr cfg \<Rightarrow> main_app cfg env clicked w)"

text \<open>
  The session states the program can be in: the fresh one, and whatever a render pass
  leaves behind, however it ends, under any configuration, vendor behaviour, clock,
  query parameters and button press.
\<close>

inductive reachable :: "session \<Rightarrow> bool" where
  fresh: "reachable fresh_session"
| pass: "reachable s \<Longrightarrow>
         run_script sec env clicked \<lparr>session = s, query_params = q, screen = [], calls = []\<rparr>
           = (c, w') \<Longrightarrow>
         reachable (session w')"

subsection \<open>Predicates and sample inputs used by the properties\<close>

text \<open>
  The inductive invariant of the session: the API client is exactly the one built from
  the stored credentials, and a saved list has entries only while its provider is
  logged in.
\<close>

definition session_inv :: "session \<Rightarrow> bool" where
  "session_inv s \<longleftrightarrow>
     youtube_api s = map_option get_youtube_api (youtube_credentials s) \<and>
     (youtube_videos s \<noteq> [] \<longrightarrow> youtube_credentials s \<noteq> None) \<and>
     (reddit_posts s \<noteq> [] \<longrightarrow> reddit s \<noteq> None)"

definition keeps :: "(session \<Rightarrow> bool) \<Rightarrow> block \<Rightarrow> bool" where
  "keeps P f \<longleftrightarrow> (\<forall>w c w'. P (session w) \<longrightarrow> f w = (c, w') \<longrightarrow> P (session w'))"

fun is_youtube_fetch :: "call \<Rightarrow> bool" where
  "is_youtube_fetch (VideosList a) = True"
| "is_youtube_fetch c = False"

fun is_reddit_fetch :: "call \<Rightarrow> bool" where
  "is_reddit_fetch (SavedList r) = True"
| "is_reddit_fetch c = False"

definition youtube_fetches :: "world \<Rightarrow> nat" where
  "youtube_fetches w = length (filter is_youtube_fetch (calls w))"

definition reddit_fetches :: "world \<Rightarrow> nat" where
  "reddit_fetches w = length (filter is_reddit_fetch (calls w))"

text \<open>A complete configuration, and a vendor world in which every call succeeds.\<close>

definition demo_secrets :: secrets where
  "demo_secrets =
     Some [''youtube'' \<mapsto> [''client_secret_json'' \<mapsto> ''{}''],
           ''reddit'' \<mapsto> [''client_id'' \<mapsto> ''id'', ''client_secret'' \<mapsto> ''hush'',
                          ''user_agent'' \<mapsto> ''agent'']]"

text \<open>
  The sentence of the framework for a key that is not there, as Streamlit 1.30 words
  it (the double quotes around the key are \<open>CHR 0x22\<close>).
\<close>

definition streamlit_sentence :: "string \<Rightarrow> string" where
  "streamlit_sentence k =
     ''st.secrets has no key '' @ [CHR 0x22] @ k @ [CHR 0x22] @
     ''. Did you forget to add it to secrets.toml or the app settings on Streamlit Cloud? '' @
     ''More info: https://docs.streamlit.io/streamlit-cloud/get-started/deploy-an-app/'' @
     ''connect-to-data-sources/secrets-management''"

definition demo_config :: config where
  "demo_config =
     \<lparr>youtube_client_secret_json = ''{}'', reddit_client_id = ''id'',
      reddit_client_secret = ''hush'', reddit_user_agent = ''agent''\<rparr>"

definition liked_video :: json where
  "liked_video =
     JObj [(''id'', JStr ''v1''),
           (''snippet'',
            JObj [(''title'', JStr ''A''),
                  (''thumbnails'', JObj [(''default'', JObj [(''url'', JStr ''t1.jpg'')])])])]"

definition demo_env :: env where
  "demo_env =
     \<lparr>parse_client_secrets = (\<lambda>j. None),
      authorization_url =
        (\<lambda>f access included. (''https://accounts.google.com/o/oauth2/auth'', ''S1'')),
      fetch_token = (\<lambda>f code. Inr (Credentials ''token'')),
      reddit_auth_url =
        (\<lambda>r scopes st duration. ''https://www.reddit.com/api/v1/authorize''),
      authorize = (\<lambda>r code. None),
      videos_list = (\<lambda>a. Inr (JObj [(''items'', JArr [liked_video])])),
      saved_listing = (\<lambda>r. Inr [Submission ''T'' ''/r/x/1'' ''x'', Comment ''c'']),
      py_str = (\<lambda>v. []),
      ctime = (\<lambda>t. []),
      missing_key_sentence = streamlit_sentence,
      no_secrets_message = ''No secrets files found.'',
      time_callback = 1030,
      time_sync = 1030,
      time_sync_now = 1030,
      time_autosync = 1031\<rparr>"

definition demo_flow :: oauth_flow where
  "demo_flow = Flow ''{}'' YOUTUBE_SCOPES (Some ''http://localhost:8501'')"

definition demo_reddit :: reddit_client where
  "demo_reddit = authorized (new_reddit demo_config) ''rc''"

definition demo_video :: video where
  "demo_video =
     \<lparr>title = JStr ''A'', url = ''https://www.youtube.com/watch?v=v1'',
      thumbnail = JStr ''t1.jpg''\<rparr>"

text \<open>
  A session that loaded the page at time 1000 (so the scheduler stamped 1000 with nobody
  logged in) and drew the YouTube login link, whose anti-forgery token is \<open>S1\<close>.
\<close>

definition waiting_session :: session where
  "waiting_session =
     fresh_session\<lparr>last_sync_time := 1000, oauth_state := Some ''S1'',
                    oauth_flow := Some demo_flow\<rparr>"

text \<open>The waiting session after a YouTube callback handled at time 2000.\<close>

definition synced_session :: session where
  "synced_session =
     waiting_session\<lparr>youtube_credentials := Some (Credentials ''token''),
                      youtube_api := Some (get_youtube_api (Credentials ''token'')),
                      youtube_videos := [demo_video], last_sync_time := 2000\<rparr>"

text \<open>
  The synced session after a Reddit callback handled at time 2010: logged in to both
  providers, last synced at time 2000.
\<close>

definition logged_in_session :: session where
  "logged_in_session = synced_session\<lparr>reddit := Some demo_reddit\<rparr>"

definition world_of :: "session \<Rightarrow> (string \<rightharpoonup> string) \<Rightarrow> world" where
  "world_of s q = \<lparr>session = s, query_params = q, screen = [], calls = []\<rparr>"




text \<open>
  The YouTube fetch of a session raises an exception that its \<^verbatim>\<open>except HttpError\<close>
  does not catch.
\<close>

definition youtube_escapes :: "env \<Rightarrow> session \<Rightarrow> bool" where
  "youtube_escapes env s =
     (case youtube_api s of
        None \<Rightarrow> False
      | Some a \<Rightarrow>
          (case youtube_request env a of
             Inr videos \<Rightarrow> False
           | Inl (HttpError m) \<Rightarrow> False
           | Inl e \<Rightarrow> True))"

text \<open>A vendor world in which the videos-list request times out.\<close>

definition down_env :: env where
  "down_env = demo_env\<lparr>videos_list := (\<lambda>a. Inl (OtherError ''timed out''))\<rparr>"

text \<open>A vendor world whose videos-list answer has an item without \<^verbatim>\<open>snippet\<close>.\<close>

definition odd_env :: env where
  "odd_env =
     demo_env\<lparr>videos_list := (\<lambda>a. Inr (JObj [(''items'', JArr [JObj [(''id'', JStr ''v1'')]])]))\<rparr>"

section \<open>Properties\<close>

subsection \<open>Blocks and the session invariant\<close>

lemma session_draw [simp]: "session (draw u w) = session w"
  by (simp add: draw_def)

lemma session_called [simp]: "session (called c w) = session w"
  by (simp add: called_def)

lemma keepsI: "(\<And>w c w'. P (session w) \<Longrightarrow> f w = (c, w') \<Longrightarrow> P (session w')) \<Longrightarrow> keeps P f"
  unfolding keeps_def by blast

lemma keepsD: "keeps P f \<Longrightarrow> P (session w) \<Longrightarrow> f w = (c, w') \<Longrightarrow> P (session w')"
  unfolding keeps_def by blast

lemma keeps_and_then:
  assumes f: "keeps P f" and g: "keeps P g"
  shows "keeps P (and_then f g)"
proof (rule keepsI)
  fix w c w'
  assume P: "P (session w)" and r: "and_then f g w = (c, w')"
  obtain c1 w1 where fw: "f w = (c1, w1)" by (cases "f w")
  have P1: "P (session w1)" using keepsD [OF f P fw] .
  show "P (session w')"
  proof (cases c1)
    case Continue
    then have "g w1 = (c, w')" using r fw by (simp add: and_then_def)
    then show ?thesis using keepsD [OF g P1] by blast
  qed (use r fw P1 in \<open>auto simp: and_then_def\<close>)
qed

lemma fetch_youtube_session:
  "fetch_youtube_saved_videos env api w = (r, w') \<Longrightarrow> session w' = session w"
  by (auto simp: fetch_youtube_saved_videos_def split: sum.splits exn.splits)

lemma fetch_reddit_session:
  "fetch_reddit_saved_posts env r w = (ps, w') \<Longrightarrow> session w' = session w"
  by (auto simp: fetch_reddit_saved_posts_def split: sum.splits)


lemma refresh_youtube_inv:
  "refresh_youtube env w = (r, w') \<Longrightarrow> session_inv (session w) \<Longrightarrow> session_inv (session w')"
  by (auto simp: refresh_youtube_def session_inv_def split: option.splits prod.splits sum.splits
      dest!: fetch_youtube_session)


lemma refresh_reddit_inv:
  "session_inv (session w) \<Longrightarrow> session_inv (session (refresh_reddit env w))"
  by (auto simp: refresh_reddit_def session_inv_def split: option.splits prod.splits
      dest!: fetch_reddit_session)


lemma session_inv_stamp:
  "session_inv (s\<lparr>last_sync_time := t\<rparr>) = session_inv s"
  by (simp add: session_inv_def)

lemma keeps_sync_content: "keeps session_inv (sync_content env t)"
proof (rule keepsI)
  fix w c w'
  assume P: "session_inv (session w)" and r: "sync_content env t w = (c, w')"
  obtain y w1 where y: "refresh_youtube env w = (y, w1)" by (cases "refresh_youtube env w")
  have P1: "session_inv (session w1)" using refresh_youtube_inv [OF y P] .
  have P2: "session_inv (session (refresh_reddit env w1))" using refresh_reddit_inv [OF P1] .
  show "session_inv (session w')"
    using r y P P1 P2
    by (auto simp: sync_content_def Let_def session_inv_stamp split: if_splits sum.splits)
qed


lemma keeps_const: "keeps P (\<lambda>w. (c0, draw u w))"
  by (rule keepsI) simp

lemma keeps_rerun: "keeps P (\<lambda>w. (Rerun, w))"
  by (rule keepsI) simp

lemma keeps_callback_tail:
  "keeps session_inv (and_then (sync_content env t) (\<lambda>w3. (Rerun, w3)))"
  by (intro keeps_and_then keeps_sync_content keeps_rerun)

lemma keeps_handle_youtube_callback: "keeps session_inv (handle_youtube_callback env)"
proof (rule keepsI)
  fix w c w'
  assume P: "session_inv (session w)" and r: "handle_youtube_callback env w = (c, w')"
  have step: "\<And>creds flow code. session_inv (session
      ((called (FetchToken flow code) w)\<lparr>session := (session (called (FetchToken flow code) w))
          \<lparr>youtube_credentials := Some creds, youtube_api := Some (get_youtube_api creds)\<rparr>,
        query_params := Map.empty\<rparr>))"
    using P by (simp add: session_inv_def)
  show "session_inv (session w')"
    using r P step
    by (auto simp: handle_youtube_callback_def Let_def
        split: option.splits if_splits sum.splits
        dest: keepsD [OF keeps_callback_tail, rotated])
qed


lemma keeps_handle_reddit_callback: "keeps session_inv (handle_reddit_callback cfg env)"
proof (rule keepsI)
  fix w c w'
  assume P: "session_inv (session w)" and r: "handle_reddit_callback cfg env w = (c, w')"
  have step: "\<And>code. session_inv (session
      ((called (Authorize (new_reddit cfg) code) w)
        \<lparr>session := (session (called (Authorize (new_reddit cfg) code) w))
          \<lparr>reddit := Some (authorized (new_reddit cfg) code)\<rparr>,
        query_params := Map.empty\<rparr>))"
    using P by (simp add: session_inv_def)
  show "session_inv (session w')"
    using r P step
    by (auto simp: handle_reddit_callback_def Let_def
        split: option.splits prod.splits ctl.splits
        dest: keepsD [OF keeps_callback_tail, rotated])
qed


lemma session_draw_videos [simp]: "session (draw_videos env vs w) = session w"
  by (induction vs arbitrary: w) simp_all

lemma session_draw_posts [simp]: "session (draw_posts ps w) = session w"
  by (induction ps arbitrary: w) simp_all

lemma keeps_youtube_login: "keeps session_inv (youtube_login cfg env)"
  by (rule keepsI)
    (auto simp: youtube_login_def Let_def session_inv_def split: option.splits)

lemma keeps_youtube_tab: "keeps session_inv (youtube_tab cfg env)"
  by (rule keepsI)
    (auto simp: youtube_tab_def Let_def last_synced_def split: if_splits
      dest: keepsD [OF keeps_youtube_login, rotated])

lemma keeps_reddit_tab: "keeps session_inv (reddit_tab cfg env)"
  by (rule keepsI)
    (auto simp: reddit_tab_def reddit_login_def Let_def last_synced_def split: if_splits)

lemma session_inv_zero: "session_inv (s\<lparr>last_sync_time := 0\<rparr>) = session_inv s"
  by (simp add: session_inv_def)

lemma keeps_sync_now: "keeps session_inv (sync_now env clicked)"
proof (rule keepsI)
  fix w c w'
  assume P: "session_inv (session w)" and r: "sync_now env clicked w = (c, w')"
  show "session_inv (session w')"
    using r P
    by (auto simp: sync_now_def Let_def session_inv_zero split: if_splits
        dest!: keepsD [OF keeps_callback_tail, rotated])
qed

lemma logout_youtube_inv: "session_inv s \<Longrightarrow> session_inv (logout_youtube s)"
  by (simp add: session_inv_def logout_youtube_def)

lemma logout_reddit_inv: "session_inv s \<Longrightarrow> session_inv (logout_reddit s)"
  by (simp add: session_inv_def logout_reddit_def)

lemma keeps_logout_controls: "keeps session_inv (logout_controls clicked)"
  by (rule keepsI)
    (auto simp: logout_controls_def Let_def logout_youtube_inv logout_reddit_inv
      split: if_splits)

lemma keeps_auto_sync: "keeps P (auto_sync env)"
  by (rule keepsI) (auto simp: auto_sync_def split: if_splits)

lemma keeps_main_app: "keeps session_inv (main_app cfg env clicked)"
  unfolding main_app_def
  by (intro keeps_and_then keeps_const keeps_handle_youtube_callback
      keeps_handle_reddit_callback keeps_sync_content keeps_youtube_tab keeps_reddit_tab
      keeps_sync_now keeps_logout_controls keeps_auto_sync)

lemma keeps_run_script: "keeps session_inv (run_script sec env clicked)"
  by (rule keepsI)
    (auto simp: run_script_def split: sum.splits exn.splits
      dest: keepsD [OF keeps_main_app, rotated])

lemma fresh_session_inv: "session_inv fresh_session"
  by (simp add: session_inv_def fresh_session_def)

lemma reachable_inv: "reachable s \<Longrightarrow> session_inv s"
proof (induction rule: reachable.induct)
  case fresh
  show ?case by (rule fresh_session_inv)
next
  case (pass s sec env clicked q c w')
  show ?case
    using keepsD [OF keeps_run_script _ pass.hyps(2)] pass.IH by simp
qed


subsection \<open>Evaluating the script on the sample inputs\<close>

lemmas fetch_defs =
  fetch_youtube_saved_videos_def youtube_request_def make_video_def format_value_def
  fetch_reddit_saved_posts_def ebind_def

lemmas sync_defs = sync_content_def stale_def refresh_youtube_def refresh_reddit_def

lemmas pass_defs =
  main_app_def and_then_def handle_youtube_callback_def handle_reddit_callback_def
  youtube_tab_def youtube_login_def reddit_tab_def reddit_login_def last_synced_def
  sync_now_def logout_controls_def logout_youtube_def logout_reddit_def auto_sync_def
  draw_def called_def Let_def

lemmas demo_defs =
  world_of_def fresh_session_def waiting_session_def logged_in_session_def
  synced_session_def demo_env_def demo_config_def demo_flow_def demo_reddit_def
  demo_video_def liked_video_def new_reddit_def get_youtube_api_def YOUTUBE_SCOPES_def
  REDDIT_REDIRECT_URI_def down_env_def odd_env_def

lemma load_demo: "load_secrets sentence nofile demo_secrets = Inr demo_config"
  by (simp add: load_secrets_def secret_def lookup_def ebind_def demo_secrets_def
      demo_config_def)

text \<open>The first page load at time 1000 leaves the waiting session.\<close>

lemma first_pass:
  "session (snd (run_script demo_secrets (demo_env\<lparr>time_sync := 1000\<rparr>) None
      (world_of fresh_session Map.empty))) = waiting_session"
  by (simp add: run_script_def load_demo pass_defs sync_defs demo_defs)

text \<open>The YouTube redirect, handled at time 2000, leaves the synced session.\<close>

lemma login_pass:
  "session (snd (run_script demo_secrets (demo_env\<lparr>time_callback := 2000\<rparr>) None
      (world_of waiting_session [''code'' \<mapsto> ''gc'', ''state'' \<mapsto> ''S1'']))) =
   synced_session"
  by (simp add: run_script_def load_demo pass_defs sync_defs fetch_defs demo_defs)

lemma reachable_waiting: "reachable waiting_session"
proof -
  obtain c w' where r: "run_script demo_secrets (demo_env\<lparr>time_sync := 1000\<rparr>) None
      \<lparr>session = fresh_session, query_params = Map.empty, screen = [], calls = []\<rparr> = (c, w')"
    by (cases "run_script demo_secrets (demo_env\<lparr>time_sync := 1000\<rparr>) None
      \<lparr>session = fresh_session, query_params = Map.empty, screen = [], calls = []\<rparr>")
  have "reachable (session w')" using reachable.pass [OF reachable.fresh r] .
  moreover have "session w' = waiting_session" using first_pass r by (simp add: world_of_def)
  ultimately show ?thesis by simp
qed

lemma reachable_synced: "reachable synced_session"
proof -
  obtain c w' where r: "run_script demo_secrets (demo_env\<lparr>time_callback := 2000\<rparr>) None
      \<lparr>session = waiting_session,
       query_params = [''code'' \<mapsto> ''gc'', ''state'' \<mapsto> ''S1''],
       screen = [], calls = []\<rparr> = (c, w')"
    by (cases "run_script demo_secrets (demo_env\<lparr>time_callback := 2000\<rparr>) None
      \<lparr>session = waiting_session,
       query_params = [''code'' \<mapsto> ''gc'', ''state'' \<mapsto> ''S1''],
       screen = [], calls = []\<rparr>")
  have "reachable (session w')" using reachable.pass [OF reachable_waiting r] .
  then show ?thesis using login_pass r by (simp add: world_of_def)
qed

text \<open>
  The Reddit redirect, handled at time 2010, leaves the logged-in session: the scheduler
  is evaluated, finds the last sync ten seconds old and fetches nothing.
\<close>

lemma reddit_login_pass:
  "run_script demo_secrets (demo_env\<lparr>time_callback := 2010\<rparr>) None
      (world_of synced_session [''code'' \<mapsto> ''rc'']) =
   (Rerun, \<lparr>session = logged_in_session, query_params = Map.empty,
           screen = [Title ''Saved Content Viewer''],
           calls = [Authorize (new_reddit demo_config) ''rc'']\<rparr>)"
  by (simp add: run_script_def load_demo pass_defs sync_defs demo_defs)

lemma reachable_logged_in: "reachable logged_in_session"
  using reachable.pass [OF reachable_synced reddit_login_pass [unfolded world_of_def]]
  by simp

subsection \<open>C1: saved items only while logged in\<close>

text \<open>
  Claim C1. In every reachable session state, the YouTube list is non-empty only if
  \<^verbatim>\<open>youtube_credentials\<close> is set, and the Reddit list is non-empty only if
  \<^verbatim>\<open>reddit\<close> is set. The invariant \<open>session_inv\<close>, which says this and that the API
  client is the one built from the credentials, is preserved by each callback handler,
  by the scheduler evaluation, by the manual sync, by the logout controls and by the
  whole render pass, however the block ends (falling through, rerun, stop or exception).
\<close>

theorem saved_items_need_credential:
  "(reachable s \<longrightarrow>
      (youtube_videos s \<noteq> [] \<longrightarrow> youtube_credentials s \<noteq> None) \<and>
      (reddit_posts s \<noteq> [] \<longrightarrow> reddit s \<noteq> None)) \<and>
   keeps session_inv (handle_youtube_callback env) \<and>
   keeps session_inv (handle_reddit_callback cfg env) \<and>
   keeps session_inv (sync_content env t) \<and>
   keeps session_inv (sync_now env clicked) \<and>
   keeps session_inv (logout_controls clicked) \<and>
   keeps session_inv (run_script sec env clicked)"
proof -
  have "reachable s \<longrightarrow>
      (youtube_videos s \<noteq> [] \<longrightarrow> youtube_credentials s \<noteq> None) \<and>
      (reddit_posts s \<noteq> [] \<longrightarrow> reddit s \<noteq> None)"
    using reachable_inv [of s] by (simp add: session_inv_def)
  then show ?thesis
    using keeps_handle_youtube_callback keeps_handle_reddit_callback keeps_sync_content
      keeps_sync_now keeps_logout_controls keeps_run_script
    by blast
qed

text \<open>
  The synced session is reachable (a page load, then the YouTube redirect), its video
  list has an entry, and the theorem gives its credential.
\<close>

theorem saved_items_need_credential_witness:
  "reachable synced_session \<and> youtube_videos synced_session = [demo_video] \<and>
   youtube_credentials synced_session \<noteq> None"
proof -
  have v: "youtube_videos synced_session = [demo_video]"
    by (simp add: synced_session_def)
  then have "youtube_videos synced_session \<noteq> []" by simp
  then have "youtube_credentials synced_session \<noteq> None"
    using saved_items_need_credential [of synced_session] reachable_synced by blast
  then show ?thesis using reachable_synced v by simp
qed

subsection \<open>C2: logout\<close>

text \<open>
  Claim C2. What a logout assigns leaves the provider's credential \<open>None\<close> and its list
  empty, whatever the session was before. The logout block performs exactly these
  assignments and asks for a rerun when the provider's button is pressed; the button
  exists while the provider is logged in.
\<close>

theorem logout_clears_credential_and_items:
  "youtube_credentials (logout_youtube s) = None \<and> youtube_videos (logout_youtube s) = [] \<and>
   reddit (logout_reddit s) = None \<and> reddit_posts (logout_reddit s) = [] \<and>
   (youtube_credentials (session w) \<noteq> None \<longrightarrow>
      fst (logout_controls (Some LogoutYouTube) w) = Rerun \<and>
      session (snd (logout_controls (Some LogoutYouTube) w)) = logout_youtube (session w)) \<and>
   (reddit (session w) \<noteq> None \<longrightarrow>
      fst (logout_controls (Some LogoutReddit) w) = Rerun \<and>
      session (snd (logout_controls (Some LogoutReddit) w)) = logout_reddit (session w))"
  by (simp add: logout_youtube_def logout_reddit_def logout_controls_def Let_def)

theorem logout_clears_credential_and_items_witness:
  "youtube_credentials logged_in_session \<noteq> None \<and>
   youtube_videos logged_in_session \<noteq> [] \<and>
   reddit logged_in_session \<noteq> None \<and>
   fst (logout_controls (Some LogoutYouTube) (world_of logged_in_session Map.empty)) = Rerun \<and>
   youtube_credentials
     (session (snd (logout_controls (Some LogoutYouTube)
        (world_of logged_in_session Map.empty)))) = None \<and>
   youtube_videos
     (session (snd (logout_controls (Some LogoutYouTube)
        (world_of logged_in_session Map.empty)))) = [] \<and>
   fst (logout_controls (Some LogoutReddit) (world_of logged_in_session Map.empty)) = Rerun \<and>
   reddit
     (session (snd (logout_controls (Some LogoutReddit)
        (world_of logged_in_session Map.empty)))) = None \<and>
   reddit_posts
     (session (snd (logout_controls (Some LogoutReddit)
        (world_of logged_in_session Map.empty)))) = []"
proof -
  have y: "youtube_credentials (session (world_of logged_in_session Map.empty)) \<noteq> None"
    and r: "reddit (session (world_of logged_in_session Map.empty)) \<noteq> None"
    by (simp_all add: demo_defs)
  have v: "youtube_videos logged_in_session \<noteq> []"
    by (simp add: demo_defs)
  show ?thesis
    using logout_clears_credential_and_items
      [of "logged_in_session" "world_of logged_in_session Map.empty"] y r v
    by (simp add: demo_defs)
qed

subsection \<open>The scheduler: what an evaluation fetches and stamps\<close>

lemma sync_content_fresh:
  "\<not> stale t (session w) \<Longrightarrow> sync_content env t w = (Continue, w)"
  by (simp add: sync_content_def)

lemma fetch_youtube_calls:
  "fetch_youtube_saved_videos env api w = (r, w') \<Longrightarrow> calls w' = calls w @ [VideosList api]"
  by (auto simp: fetch_youtube_saved_videos_def draw_def called_def split: sum.splits exn.splits)

lemma fetch_reddit_calls:
  "fetch_reddit_saved_posts env r w = (ps, w') \<Longrightarrow> calls w' = calls w @ [SavedList r]"
  by (auto simp: fetch_reddit_saved_posts_def draw_def called_def split: sum.splits)

lemma refresh_youtube_calls:
  "refresh_youtube env w = (r, w') \<Longrightarrow>
   calls w' = calls w @ (case youtube_api (session w) of None \<Rightarrow> [] | Some a \<Rightarrow> [VideosList a])"
  by (auto simp: refresh_youtube_def split: option.splits prod.splits sum.splits
      dest: fetch_youtube_calls)

lemma refresh_youtube_frame:
  "refresh_youtube env w = (r, w') \<Longrightarrow>
   reddit (session w') = reddit (session w) \<and>
   last_sync_time (session w') = last_sync_time (session w) \<and>
   sync_interval (session w') = sync_interval (session w)"
  by (auto simp: refresh_youtube_def split: option.splits prod.splits sum.splits
      dest: fetch_youtube_session)

lemma refresh_reddit_calls:
  "calls (refresh_reddit env w) =
   calls w @ (case reddit (session w) of None \<Rightarrow> [] | Some r \<Rightarrow> [SavedList r])"
  by (auto simp: refresh_reddit_def split: option.splits prod.splits dest: fetch_reddit_calls)

lemma refresh_reddit_frame:
  "last_sync_time (session (refresh_reddit env w)) = last_sync_time (session w) \<and>
   sync_interval (session (refresh_reddit env w)) = sync_interval (session w)"
  by (auto simp: refresh_reddit_def split: option.splits prod.splits dest: fetch_reddit_session)

text \<open>A stale evaluation that returns has made both fetches and stamped the time.\<close>

lemma sync_content_stale_done:
  assumes st: "stale t (session w)" and r: "sync_content env t w = (Continue, w')"
  shows "calls w' = calls w
           @ (case youtube_api (session w) of None \<Rightarrow> [] | Some a \<Rightarrow> [VideosList a])
           @ (case reddit (session w) of None \<Rightarrow> [] | Some r \<Rightarrow> [SavedList r])"
    and "last_sync_time (session w') = t"
    and "sync_interval (session w') = sync_interval (session w)"
proof -
  obtain y w1 where y: "refresh_youtube env w = (y, w1)" by (cases "refresh_youtube env w")
  from r st y obtain u where yu: "y = Inr u"
    by (cases y) (auto simp: sync_content_def)
  have w': "w' = (refresh_reddit env w1)
      \<lparr>session := (session (refresh_reddit env w1))\<lparr>last_sync_time := t\<rparr>\<rparr>"
    using r st y yu by (simp add: sync_content_def Let_def)
  show "calls w' = calls w
           @ (case youtube_api (session w) of None \<Rightarrow> [] | Some a \<Rightarrow> [VideosList a])
           @ (case reddit (session w) of None \<Rightarrow> [] | Some r \<Rightarrow> [SavedList r])"
    using w' refresh_youtube_calls [OF y] refresh_youtube_frame [OF y]
    by (simp add: refresh_reddit_calls)
  show "last_sync_time (session w') = t" using w' by simp
  show "sync_interval (session w') = sync_interval (session w)"
    using w' refresh_youtube_frame [OF y] refresh_reddit_frame [of env w1] by simp
qed

text \<open>Whatever way a stale evaluation ends, the YouTube fetch comes first.\<close>

lemma sync_content_stale_youtube_first:
  assumes st: "stale t (session w)" and r: "sync_content env t w = (c, w')"
    and a: "youtube_api (session w) = Some api"
  shows "prefix (calls w @ [VideosList api]) (calls w')"
proof -
  obtain y w1 where y: "refresh_youtube env w = (y, w1)" by (cases "refresh_youtube env w")
  have c1: "calls w1 = calls w @ [VideosList api]"
    using refresh_youtube_calls [OF y] a by simp
  show ?thesis
  proof (cases y)
    case (Inl e)
    then have "w' = w1" using r st y by (simp add: sync_content_def)
    then show ?thesis using c1 by simp
  next
    case (Inr u)
    then have "w' = (refresh_reddit env w1)
        \<lparr>session := (session (refresh_reddit env w1))\<lparr>last_sync_time := t\<rparr>\<rparr>"
      using r st y by (simp add: sync_content_def Let_def)
    then show ?thesis using c1 by (simp add: refresh_reddit_calls prefix_def)
  qed
qed

lemma sync_content_ctl:
  "sync_content env t w = (c, w') \<Longrightarrow> c = Continue \<or> (\<exists>e. c = Raised e)"
  by (auto simp: sync_content_def Let_def split: if_splits prod.splits sum.splits)

text \<open>
  When the YouTube fetch raises nothing that escapes its handler, the evaluation
  returns.
\<close>

lemma youtube_escapes_stamp [simp]:
  "youtube_escapes env (s\<lparr>last_sync_time := t\<rparr>) = youtube_escapes env s"
  by (simp add: youtube_escapes_def)

lemma refresh_youtube_returns:
  "\<not> youtube_escapes env (session w) \<Longrightarrow> fst (refresh_youtube env w) = Inr ()"
  by (auto simp: refresh_youtube_def youtube_escapes_def fetch_youtube_saved_videos_def
      split: option.splits sum.splits exn.splits)

lemma sync_content_returns:
  assumes "\<not> youtube_escapes env (session w)"
  shows "fst (sync_content env t w) = Continue"
proof -
  obtain y w1 where y: "refresh_youtube env w = (y, w1)" by (cases "refresh_youtube env w")
  then have "y = Inr ()" using refresh_youtube_returns [OF assms] by simp
  then show ?thesis using y by (simp add: sync_content_def Let_def)
qed

text \<open>The videos-list request times out in the logged-in session, twice in a row.\<close>

lemma down_sync_demo:
  "sync_content down_env 2100 (world_of logged_in_session Map.empty) =
   (Raised (OtherError ''timed out''),
    \<lparr>session = logged_in_session, query_params = Map.empty, screen = [],
     calls = [VideosList (YoutubeApi (Credentials ''token''))]\<rparr>)"
  by (simp add: pass_defs sync_defs fetch_defs demo_defs)

lemma down_sync_again_demo:
  "sync_content down_env 2101
    \<lparr>session = logged_in_session, query_params = Map.empty, screen = [],
     calls = [VideosList (YoutubeApi (Credentials ''token''))]\<rparr> =
   (Raised (OtherError ''timed out''),
    \<lparr>session = logged_in_session, query_params = Map.empty, screen = [],
     calls = [VideosList (YoutubeApi (Credentials ''token'')),
              VideosList (YoutubeApi (Credentials ''token''))]\<rparr>)"
  by (simp add: pass_defs sync_defs fetch_defs demo_defs)

subsection \<open>C3: the sync after a successful callback\<close>

text \<open>
  A successful callback inside the interval: the credential is stored, the query
  parameters are cleared, the exchange is the only vendor call, and the pass reruns.
\<close>

lemma callback_sync_is_gated:
  "(query_params w ''code'' = Some code \<and> query_params w ''state'' = Some st \<and>
    oauth_state (session w) = Some st \<and> oauth_flow (session w) = Some flow \<and>
    fetch_token env flow code = Inr creds \<and>
    \<not> stale (time_callback env) (session w) \<longrightarrow>
      handle_youtube_callback env w =
      (Rerun,
       w\<lparr>session := (session w)\<lparr>youtube_credentials := Some creds,
                                 youtube_api := Some (get_youtube_api creds)\<rparr>,
         query_params := Map.empty,
         calls := calls w @ [FetchToken flow code]\<rparr>)) \<and>
   (query_params w ''code'' = Some code \<and> authorize env (new_reddit cfg) code = None \<and>
    \<not> stale (time_callback env) (session w) \<longrightarrow>
      handle_reddit_callback cfg env w =
      (Rerun,
       w\<lparr>session := (session w)\<lparr>reddit := Some (authorized (new_reddit cfg) code)\<rparr>,
         query_params := Map.empty,
         calls := calls w @ [Authorize (new_reddit cfg) code]\<rparr>))"
  by (simp add: handle_youtube_callback_def handle_reddit_callback_def and_then_def
      sync_content_def stale_def called_def Let_def)

text \<open>
  Claim C3. A successful YouTube callback exchanges the code, stores the credential and
  the API client, clears the query parameters, evaluates the scheduler and reruns. The
  scheduler keeps its interval gate (the handler does not zero the timestamp as the
  manual sync does): for the page loaded at time 1000 and the redirect handled at time
  1030, the evaluation is not stale, the only vendor call is the token exchange, and the
  video list stays empty although the vendor would return one liked video.
\<close>

theorem youtube_callback_within_interval_fetches_nothing:
  "stale (time_callback demo_env) waiting_session = False \<and>
   fetch_token demo_env demo_flow ''gc'' = Inr (Credentials ''token'') \<and>
   youtube_request demo_env (get_youtube_api (Credentials ''token'')) = Inr [demo_video] \<and>
   handle_youtube_callback demo_env
     (world_of waiting_session [''code'' \<mapsto> ''gc'', ''state'' \<mapsto> ''S1'']) =
   (Rerun,
    \<lparr>session = waiting_session
       \<lparr>youtube_credentials := Some (Credentials ''token''),
        youtube_api := Some (get_youtube_api (Credentials ''token''))\<rparr>,
     query_params = Map.empty, screen = [],
     calls = [FetchToken demo_flow ''gc'']\<rparr>) \<and>
   youtube_videos (waiting_session
       \<lparr>youtube_credentials := Some (Credentials ''token''),
        youtube_api := Some (get_youtube_api (Credentials ''token''))\<rparr>) = []"
  by (simp add: pass_defs sync_defs fetch_defs demo_defs)

lemma sync_now_demo:
  "sync_now (demo_env\<lparr>time_sync_now := 2005\<rparr>) (Some SyncNow)
     (world_of logged_in_session Map.empty) =
   (Rerun,
    \<lparr>session = logged_in_session\<lparr>reddit_posts :=
         [\<lparr>post_title = ''T'', post_url = ''/r/x/1'', subreddit = ''x''\<rparr>],
         last_sync_time := 2005\<rparr>,
     query_params = Map.empty,
     screen = [SidebarHeader ''Controls'', Button ''Sync Now''],
     calls = [VideosList (YoutubeApi (Credentials ''token'')), SavedList demo_reddit]\<rparr>)"
  by (simp add: pass_defs sync_defs fetch_defs demo_defs)

lemma sync_now_odd_demo:
  "sync_now (odd_env\<lparr>time_sync_now := 2005\<rparr>) (Some SyncNow)
     (world_of logged_in_session Map.empty) =
   (Raised (KeyError ''snippet''),
    \<lparr>session = logged_in_session\<lparr>last_sync_time := 0\<rparr>,
     query_params = Map.empty,
     screen = [SidebarHeader ''Controls'', Button ''Sync Now''],
     calls = [VideosList (YoutubeApi (Credentials ''token''))]\<rparr>)"
  by (simp add: pass_defs sync_defs fetch_defs demo_defs)

subsection \<open>C4: the manual sync bypasses the interval\<close>

text \<open>
  Claim C4, as stated, fails. In the logged-in session (both providers hold a
  credential) "Sync Now" is pressed at time 2005, and the videos-list answer has an item
  without \<^verbatim>\<open>snippet\<close>. The evaluation is stale and makes the YouTube fetch, whose
  \<^verbatim>\<open>KeyError\<close> leaves \<^verbatim>\<open>sync_content\<close>: no Reddit fetch is made, and the timestamp
  stays at the zero the button wrote.
\<close>

theorem sync_now_skips_reddit_counterexample:
  "reachable (session (world_of logged_in_session Map.empty)) \<and>
   sync_interval (session (world_of logged_in_session Map.empty))
     \<le> time_sync_now (odd_env\<lparr>time_sync_now := 2005\<rparr>) \<and>
   reddit logged_in_session = Some demo_reddit \<and>
   sync_now (odd_env\<lparr>time_sync_now := 2005\<rparr>) (Some SyncNow)
     (world_of logged_in_session Map.empty) =
   (Raised (KeyError ''snippet''),
    \<lparr>session = logged_in_session\<lparr>last_sync_time := 0\<rparr>,
     query_params = Map.empty,
     screen = [SidebarHeader ''Controls'', Button ''Sync Now''],
     calls = [VideosList (YoutubeApi (Credentials ''token''))]\<rparr>) \<and>
   reddit_fetches (snd (sync_now (odd_env\<lparr>time_sync_now := 2005\<rparr>) (Some SyncNow)
     (world_of logged_in_session Map.empty))) = 0"
proof -
  have reach: "reachable (session (world_of logged_in_session Map.empty))"
    using reachable_logged_in by (simp add: world_of_def)
  have clock: "sync_interval (session (world_of logged_in_session Map.empty))
     \<le> time_sync_now (odd_env\<lparr>time_sync_now := 2005\<rparr>)"
    by (simp add: demo_defs)
  have rd: "reddit logged_in_session = Some demo_reddit"
    by (simp add: logged_in_session_def)
  have n: "reddit_fetches (snd (sync_now (odd_env\<lparr>time_sync_now := 2005\<rparr>) (Some SyncNow)
     (world_of logged_in_session Map.empty))) = 0"
    by (simp add: sync_now_odd_demo reddit_fetches_def)
  show ?thesis using reach clock rd n sync_now_odd_demo by blast
qed

text \<open>
  Claim C4, amended. Pressing "Sync Now" in a reachable session zeroes
  \<^verbatim>\<open>last_sync_time\<close> and evaluates the scheduler at once. Provided the clock then reads
  at least \<open>sync_interval\<close> seconds (sixty; the clock counts seconds since 1970), the
  evaluation is stale whatever the timestamp was before, and the YouTube fetch is the
  first call it makes when a YouTube credential is held. Unless that fetch raises an
  exception other than \<^verbatim>\<open>HttpError\<close>, the block ends in the rerun; and when it does,
  the evaluation has made exactly one fetch for each provider that holds a credential
  and has stamped the clock reading.
\<close>

theorem sync_now_fetches_for_every_credential:
  assumes reach: "reachable (session w)"
    and clock: "sync_interval (session w) \<le> time_sync_now env"
    and run: "sync_now env (Some SyncNow) w = (c, w')"
  shows "(\<forall>cr. youtube_credentials (session w) = Some cr \<longrightarrow>
            prefix (calls w @ [VideosList (get_youtube_api cr)]) (calls w')) \<and>
         (\<not> youtube_escapes env (session w) \<longrightarrow> c = Rerun) \<and>
         (c = Rerun \<longrightarrow>
            calls w' = calls w
              @ (case youtube_credentials (session w) of
                   None \<Rightarrow> [] | Some cr \<Rightarrow> [VideosList (get_youtube_api cr)])
              @ (case reddit (session w) of None \<Rightarrow> [] | Some r \<Rightarrow> [SavedList r]) \<and>
            last_sync_time (session w') = time_sync_now env)"
proof -
  define w0 where "w0 = (draw (Button ''Sync Now'') (draw (SidebarHeader ''Controls'') w))
      \<lparr>session := (session w)\<lparr>last_sync_time := 0\<rparr>\<rparr>"
  have api: "youtube_api (session w0) = map_option get_youtube_api (youtube_credentials (session w))"
    using reachable_inv [OF reach] by (simp add: w0_def session_inv_def)
  have rd: "reddit (session w0) = reddit (session w)" by (simp add: w0_def)
  have cs: "calls w0 = calls w" by (simp add: w0_def draw_def)
  have esc: "youtube_escapes env (session w0) = youtube_escapes env (session w)"
    by (simp add: w0_def)
  have st: "stale (time_sync_now env) (session w0)"
    using clock by (simp add: w0_def stale_def)
  obtain c1 w1 where s1: "sync_content env (time_sync_now env) w0 = (c1, w1)"
    by (cases "sync_content env (time_sync_now env) w0")
  have w': "w' = w1" and c: "c = (if c1 = Continue then Rerun else c1)"
    using run s1 by (auto simp: sync_now_def Let_def and_then_def w0_def split: ctl.splits)
  have first: "\<forall>cr. youtube_credentials (session w) = Some cr \<longrightarrow>
            prefix (calls w @ [VideosList (get_youtube_api cr)]) (calls w')"
    using sync_content_stale_youtube_first [OF st s1] api cs w' by simp
  have returns: "\<not> youtube_escapes env (session w) \<longrightarrow> c = Rerun"
  proof
    assume "\<not> youtube_escapes env (session w)"
    then have "\<not> youtube_escapes env (session w0)" using esc by simp
    then have "fst (sync_content env (time_sync_now env) w0) = Continue"
      by (rule sync_content_returns)
    then show "c = Rerun" using s1 c by simp
  qed
  have complete: "c = Rerun \<longrightarrow>
            calls w' = calls w
              @ (case youtube_credentials (session w) of
                   None \<Rightarrow> [] | Some cr \<Rightarrow> [VideosList (get_youtube_api cr)])
              @ (case reddit (session w) of None \<Rightarrow> [] | Some r \<Rightarrow> [SavedList r]) \<and>
            last_sync_time (session w') = time_sync_now env"
  proof
    assume "c = Rerun"
    then have "c1 = Continue" using c sync_content_ctl [OF s1] by auto
    then have s1': "sync_content env (time_sync_now env) w0 = (Continue, w1)" using s1 by simp
    show "calls w' = calls w
              @ (case youtube_credentials (session w) of
                   None \<Rightarrow> [] | Some cr \<Rightarrow> [VideosList (get_youtube_api cr)])
              @ (case reddit (session w) of None \<Rightarrow> [] | Some r \<Rightarrow> [SavedList r]) \<and>
            last_sync_time (session w') = time_sync_now env"
      using sync_content_stale_done(1,2) [OF st s1'] api rd cs w'
      by (simp split: option.splits)
  qed
  show ?thesis using first returns complete by blast
qed

theorem sync_now_fetches_for_every_credential_witness:
  "reachable (session (world_of logged_in_session Map.empty)) \<and>
   sync_interval (session (world_of logged_in_session Map.empty))
     \<le> time_sync_now (demo_env\<lparr>time_sync_now := 2005\<rparr>) \<and>
   \<not> youtube_escapes (demo_env\<lparr>time_sync_now := 2005\<rparr>)
       (session (world_of logged_in_session Map.empty)) \<and>
   last_sync_time logged_in_session = 2000 \<and>
   youtube_credentials logged_in_session = Some (Credentials ''token'') \<and>
   reddit logged_in_session = Some demo_reddit \<and>
   fst (sync_now (demo_env\<lparr>time_sync_now := 2005\<rparr>) (Some SyncNow)
     (world_of logged_in_session Map.empty)) = Rerun \<and>
   calls (snd (sync_now (demo_env\<lparr>time_sync_now := 2005\<rparr>) (Some SyncNow)
     (world_of logged_in_session Map.empty))) =
     [VideosList (get_youtube_api (Credentials ''token'')), SavedList demo_reddit]"
proof -
  have reach: "reachable (session (world_of logged_in_session Map.empty))"
    using reachable_logged_in by (simp add: world_of_def)
  have clock: "sync_interval (session (world_of logged_in_session Map.empty))
     \<le> time_sync_now (demo_env\<lparr>time_sync_now := 2005\<rparr>)"
    by (simp add: demo_defs)
  have noesc: "\<not> youtube_escapes (demo_env\<lparr>time_sync_now := 2005\<rparr>)
       (session (world_of logged_in_session Map.empty))"
    by (simp add: youtube_escapes_def fetch_defs demo_defs)
  have facts: "last_sync_time logged_in_session = 2000"
    "youtube_credentials logged_in_session = Some (Credentials ''token'')"
    "reddit logged_in_session = Some demo_reddit"
    by (simp_all add: logged_in_session_def synced_session_def waiting_session_def)
  note run = sync_now_demo
  note T = sync_now_fetches_for_every_credential [OF reach clock run]
  have rr: "fst (sync_now (demo_env\<lparr>time_sync_now := 2005\<rparr>) (Some SyncNow)
     (world_of logged_in_session Map.empty)) = Rerun"
    using T noesc run by simp
  have "calls (snd (sync_now (demo_env\<lparr>time_sync_now := 2005\<rparr>) (Some SyncNow)
          (world_of logged_in_session Map.empty))) =
        calls (world_of logged_in_session Map.empty)
          @ (case youtube_credentials (session (world_of logged_in_session Map.empty)) of
               None \<Rightarrow> [] | Some cr \<Rightarrow> [VideosList (get_youtube_api cr)])
          @ (case reddit (session (world_of logged_in_session Map.empty)) of
               None \<Rightarrow> [] | Some r \<Rightarrow> [SavedList r])"
    using T run by simp
  moreover have "session (world_of logged_in_session Map.empty) = logged_in_session"
    "calls (world_of logged_in_session Map.empty) = []"
    by (simp_all add: world_of_def)
  ultimately have "calls (snd (sync_now (demo_env\<lparr>time_sync_now := 2005\<rparr>) (Some SyncNow)
          (world_of logged_in_session Map.empty))) =
     [VideosList (get_youtube_api (Credentials ''token'')), SavedList demo_reddit]"
    by (simp add: facts)
  then show ?thesis using reach clock noesc facts rr by blast
qed

lemma first_sync_demo:
  "sync_content demo_env 2100 (world_of logged_in_session Map.empty) =
   (Continue,
    \<lparr>session = logged_in_session\<lparr>reddit_posts :=
         [\<lparr>post_title = ''T'', post_url = ''/r/x/1'', subreddit = ''x''\<rparr>],
         last_sync_time := 2100\<rparr>,
     query_params = Map.empty, screen = [],
     calls = [VideosList (YoutubeApi (Credentials ''token'')), SavedList demo_reddit]\<rparr>)"
  by (simp add: pass_defs sync_defs fetch_defs demo_defs)

lemma second_sync_demo:
  "sync_content demo_env 2130
    \<lparr>session = logged_in_session\<lparr>reddit_posts :=
         [\<lparr>post_title = ''T'', post_url = ''/r/x/1'', subreddit = ''x''\<rparr>],
         last_sync_time := 2100\<rparr>,
     query_params = Map.empty, screen = [],
     calls = [VideosList (YoutubeApi (Credentials ''token'')), SavedList demo_reddit]\<rparr> =
   (Continue,
    \<lparr>session = logged_in_session\<lparr>reddit_posts :=
         [\<lparr>post_title = ''T'', post_url = ''/r/x/1'', subreddit = ''x''\<rparr>],
         last_sync_time := 2100\<rparr>,
     query_params = Map.empty, screen = [],
     calls = [VideosList (YoutubeApi (Credentials ''token'')), SavedList demo_reddit]\<rparr>)"
  by (simp add: sync_defs demo_defs)

subsection \<open>C5: two evaluations within one interval\<close>

text \<open>
  Claim C5, as stated, fails. In the logged-in session the videos-list request times
  out. The evaluation at time 2100 is stale and makes the YouTube fetch, whose exception
  leaves \<^verbatim>\<open>sync_content\<close> before the timestamp is set; the evaluation one second
  later, with nothing zeroed in between, is stale again and makes a second YouTube
  fetch.
\<close>

theorem two_failing_evaluations_counterexample:
  "youtube_fetches (world_of logged_in_session Map.empty) = 0 \<and>
   sync_content down_env 2100 (world_of logged_in_session Map.empty) =
   (Raised (OtherError ''timed out''),
    \<lparr>session = logged_in_session, query_params = Map.empty, screen = [],
     calls = [VideosList (YoutubeApi (Credentials ''token''))]\<rparr>) \<and>
   (2101::real) - 2100 < sync_interval logged_in_session \<and>
   sync_content down_env 2101
    \<lparr>session = logged_in_session, query_params = Map.empty, screen = [],
     calls = [VideosList (YoutubeApi (Credentials ''token''))]\<rparr> =
   (Raised (OtherError ''timed out''),
    \<lparr>session = logged_in_session, query_params = Map.empty, screen = [],
     calls = [VideosList (YoutubeApi (Credentials ''token'')),
              VideosList (YoutubeApi (Credentials ''token''))]\<rparr>) \<and>
   youtube_fetches
    \<lparr>session = logged_in_session, query_params = Map.empty, screen = [],
     calls = [VideosList (YoutubeApi (Credentials ''token'')),
              VideosList (YoutubeApi (Credentials ''token''))]\<rparr> = 2"
proof -
  have z: "youtube_fetches (world_of logged_in_session Map.empty) = 0"
    by (simp add: youtube_fetches_def world_of_def)
  have i: "(2101::real) - 2100 < sync_interval logged_in_session"
    by (simp add: demo_defs)
  have n: "youtube_fetches
    \<lparr>session = logged_in_session, query_params = Map.empty, screen = [],
     calls = [VideosList (YoutubeApi (Credentials ''token'')),
              VideosList (YoutubeApi (Credentials ''token''))]\<rparr> = 2"
    by (simp add: youtube_fetches_def)
  show ?thesis using z i n down_sync_demo down_sync_again_demo by blast
qed

text \<open>Two evaluations of which the first returns.\<close>

lemma two_returning_evaluations:
  assumes first: "sync_content env1 t1 w = (Continue, w1)"
    and stamp: "last_sync_time (session v) = last_sync_time (session w1)"
    and interval: "sync_interval (session v) = sync_interval (session w1)"
    and log: "calls v = calls w1"
    and within: "t2 - t1 < sync_interval (session w)"
    and second: "sync_content env2 t2 v = (c2, w2)"
  shows "youtube_fetches w2 \<le> youtube_fetches w + 1 \<and>
         reddit_fetches w2 \<le> reddit_fetches w + 1"
proof (cases "stale t1 (session w)")
  case True
  have l: "last_sync_time (session w1) = t1"
    and i: "sync_interval (session w1) = sync_interval (session w)"
    using sync_content_stale_done(2,3) [OF True first] by simp_all
  have "\<not> stale t2 (session v)"
    using within stamp interval l i by (simp add: stale_def)
  then have "w2 = v" using second by (simp add: sync_content_fresh)
  then have "calls w2 = calls w
           @ (case youtube_api (session w) of None \<Rightarrow> [] | Some a \<Rightarrow> [VideosList a])
           @ (case reddit (session w) of None \<Rightarrow> [] | Some r \<Rightarrow> [SavedList r])"
    using sync_content_stale_done(1) [OF True first] log by simp
  then show ?thesis
    by (simp add: youtube_fetches_def reddit_fetches_def split: option.splits)
next
  case False
  then have w1: "w1 = w" using first by (simp add: sync_content_fresh)
  show ?thesis
  proof (cases "stale t2 (session v)")
    case False
    then have "w2 = v" using second by (simp add: sync_content_fresh)
    then show ?thesis using log w1 by (simp add: youtube_fetches_def reddit_fetches_def)
  next
    case True
    obtain y v1 where y: "refresh_youtube env2 v = (y, v1)" by (cases "refresh_youtube env2 v")
    have c1: "calls v1 = calls v
        @ (case youtube_api (session v) of None \<Rightarrow> [] | Some a \<Rightarrow> [VideosList a])"
      using refresh_youtube_calls [OF y] .
    show ?thesis
    proof (cases y)
      case (Inl e)
      then have "w2 = v1" using second True y by (simp add: sync_content_def)
      then show ?thesis using c1 log w1
        by (simp add: youtube_fetches_def reddit_fetches_def split: option.splits)
    next
      case (Inr u)
      then have "w2 = (refresh_reddit env2 v1)
          \<lparr>session := (session (refresh_reddit env2 v1))\<lparr>last_sync_time := t2\<rparr>\<rparr>"
        using second True y by (simp add: sync_content_def Let_def)
      then show ?thesis using c1 log w1
        by (simp add: refresh_reddit_calls youtube_fetches_def reddit_fetches_def
            split: option.splits)
    qed
  qed
qed

text \<open>
  Claim C5, amended. Let a scheduler evaluation run at time \<open>t1\<close> with a YouTube fetch
  that raises no exception other than \<^verbatim>\<open>HttpError\<close>, and let a second one run at a
  time \<open>t2\<close> less than \<open>sync_interval\<close> after \<open>t1\<close>, on a world that has the timestamp,
  the interval and the call log the first one left (nothing zeroed the timestamp in
  between; anything else may have changed). Then the first evaluation returns, and the
  two together make at most one YouTube fetch and at most one Reddit fetch.
\<close>

theorem two_evaluations_fetch_at_most_once:
  assumes caught: "\<not> youtube_escapes env1 (session w)"
    and first: "sync_content env1 t1 w = (c1, w1)"
    and stamp: "last_sync_time (session v) = last_sync_time (session w1)"
    and interval: "sync_interval (session v) = sync_interval (session w1)"
    and log: "calls v = calls w1"
    and within: "t2 - t1 < sync_interval (session w)"
    and second: "sync_content env2 t2 v = (c2, w2)"
  shows "c1 = Continue \<and>
         youtube_fetches w2 \<le> youtube_fetches w + 1 \<and>
         reddit_fetches w2 \<le> reddit_fetches w + 1"
proof -
  have c1: "c1 = Continue"
    using sync_content_returns [OF caught, of t1] first by simp
  then have "sync_content env1 t1 w = (Continue, w1)" using first by simp
  then show ?thesis
    using two_returning_evaluations [OF _ stamp interval log within second] c1 by blast
qed

theorem two_evaluations_fetch_at_most_once_witness:
  "\<not> youtube_escapes demo_env (session (world_of logged_in_session Map.empty)) \<and>
   sync_content demo_env 2100 (world_of logged_in_session Map.empty) =
   (Continue,
    \<lparr>session = logged_in_session\<lparr>reddit_posts :=
         [\<lparr>post_title = ''T'', post_url = ''/r/x/1'', subreddit = ''x''\<rparr>],
         last_sync_time := 2100\<rparr>,
     query_params = Map.empty, screen = [],
     calls = [VideosList (YoutubeApi (Credentials ''token'')), SavedList demo_reddit]\<rparr>) \<and>
   (2130::real) - 2100 < sync_interval (session (world_of logged_in_session Map.empty)) \<and>
   youtube_fetches (world_of logged_in_session Map.empty) = 0 \<and>
   reddit_fetches (world_of logged_in_session Map.empty) = 0 \<and>
   youtube_fetches (snd (sync_content demo_env 2130
    \<lparr>session = logged_in_session\<lparr>reddit_posts :=
         [\<lparr>post_title = ''T'', post_url = ''/r/x/1'', subreddit = ''x''\<rparr>],
         last_sync_time := 2100\<rparr>,
     query_params = Map.empty, screen = [],
     calls = [VideosList (YoutubeApi (Credentials ''token'')), SavedList demo_reddit]\<rparr>)) \<le> 1 \<and>
   reddit_fetches (snd (sync_content demo_env 2130
    \<lparr>session = logged_in_session\<lparr>reddit_posts :=
         [\<lparr>post_title = ''T'', post_url = ''/r/x/1'', subreddit = ''x''\<rparr>],
         last_sync_time := 2100\<rparr>,
     query_params = Map.empty, screen = [],
     calls = [VideosList (YoutubeApi (Credentials ''token'')), SavedList demo_reddit]\<rparr>)) \<le> 1"
proof -
  have caught: "\<not> youtube_escapes demo_env (session (world_of logged_in_session Map.empty))"
    by (simp add: youtube_escapes_def fetch_defs demo_defs)
  have within: "(2130::real) - 2100
      < sync_interval (session (world_of logged_in_session Map.empty))"
    by (simp add: demo_defs)
  have zero: "youtube_fetches (world_of logged_in_session Map.empty) = 0"
    "reddit_fetches (world_of logged_in_session Map.empty) = 0"
    by (simp_all add: youtube_fetches_def reddit_fetches_def world_of_def)
  have "youtube_fetches (snd (sync_content demo_env 2130
    \<lparr>session = logged_in_session\<lparr>reddit_posts :=
         [\<lparr>post_title = ''T'', post_url = ''/r/x/1'', subreddit = ''x''\<rparr>],
         last_sync_time := 2100\<rparr>,
     query_params = Map.empty, screen = [],
     calls = [VideosList (YoutubeApi (Credentials ''token'')), SavedList demo_reddit]\<rparr>)) \<le> 1 \<and>
   reddit_fetches (snd (sync_content demo_env 2130
    \<lparr>session = logged_in_session\<lparr>reddit_posts :=
         [\<lparr>post_title = ''T'', post_url = ''/r/x/1'', subreddit = ''x''\<rparr>],
         last_sync_time := 2100\<rparr>,
     query_params = Map.empty, screen = [],
     calls = [VideosList (YoutubeApi (Credentials ''token'')), SavedList demo_reddit]\<rparr>)) \<le> 1"
    using two_evaluations_fetch_at_most_once
      [OF caught first_sync_demo refl refl refl within second_sync_demo] zero
      second_sync_demo
    by simp
  then show ?thesis using caught within zero first_sync_demo by blast
qed

subsection \<open>C6: failed or forged callbacks\<close>

text \<open>
  Claim C6, as stated, fails. A YouTube redirect whose \<^verbatim>\<open>state\<close> differs from the stored
  token makes \<^verbatim>\<open>handle_youtube_callback\<close> fall through with nothing drawn: no inline
  message. The Reddit handler never compares the \<^verbatim>\<open>state\<close> parameter with the
  \<^verbatim>\<open>uniqueKey\<close> of the login link, so a redirect with another value still creates the
  Reddit credential.
\<close>

theorem callback_mismatch_counterexample:
  "handle_youtube_callback demo_env
     (world_of waiting_session [''code'' \<mapsto> ''gc'', ''state'' \<mapsto> ''forged'']) =
   (Continue, world_of waiting_session [''code'' \<mapsto> ''gc'', ''state'' \<mapsto> ''forged'']) \<and>
   screen (world_of waiting_session [''code'' \<mapsto> ''gc'', ''state'' \<mapsto> ''forged'']) = [] \<and>
   ''forged'' \<noteq> ''uniqueKey'' \<and>
   reddit (session (snd (handle_reddit_callback demo_config demo_env
     (world_of waiting_session [''code'' \<mapsto> ''rc'', ''state'' \<mapsto> ''forged''])))) =
   Some demo_reddit"
  by (simp add: pass_defs sync_defs demo_defs)

text \<open>
  Claim C6, amended. When the Reddit token exchange raises, the handler draws the error
  \<^verbatim>\<open>Reddit login failed: ...\<close>, leaves the session as it was and the pass goes on.
  When the \<^verbatim>\<open>state\<close> of a YouTube redirect differs from the stored token, the YouTube
  handler changes nothing and draws nothing. When the YouTube token exchange raises, the
  session is left as it was (no credential is stored).
\<close>

theorem failed_callback_leaves_session_unauthenticated:
  "(query_params w ''code'' = Some code \<and> authorize env (new_reddit cfg) code = Some e \<longrightarrow>
      handle_reddit_callback cfg env w =
      (Continue,
       draw (Error (''Reddit login failed: '' @ exn_str e))
         (called (Authorize (new_reddit cfg) code) w))) \<and>
   (query_params w ''code'' = Some code \<and> query_params w ''state'' = Some st \<and>
    oauth_state (session w) = Some expected \<and> st \<noteq> expected \<longrightarrow>
      handle_youtube_callback env w = (Continue, w)) \<and>
   (query_params w ''code'' = Some code \<and> query_params w ''state'' = Some st \<and>
    oauth_state (session w) = Some st \<and> oauth_flow (session w) = Some flow \<and>
    fetch_token env flow code = Inl e' \<longrightarrow>
      session (snd (handle_youtube_callback env w)) = session w)"
  by (simp add: handle_reddit_callback_def handle_youtube_callback_def)

theorem failed_callback_leaves_session_unauthenticated_witness:
  "query_params (world_of waiting_session [''code'' \<mapsto> ''gc'', ''state'' \<mapsto> ''forged''])
     ''code'' = Some ''gc'' \<and>
   authorize (demo_env\<lparr>authorize := (\<lambda>r code. Some (OtherError ''invalid_grant''))\<rparr>)
     (new_reddit demo_config) ''gc'' = Some (OtherError ''invalid_grant'') \<and>
   handle_reddit_callback demo_config
     (demo_env\<lparr>authorize := (\<lambda>r code. Some (OtherError ''invalid_grant''))\<rparr>)
     (world_of waiting_session [''code'' \<mapsto> ''gc'', ''state'' \<mapsto> ''forged'']) =
   (Continue,
    \<lparr>session = waiting_session,
     query_params = [''code'' \<mapsto> ''gc'', ''state'' \<mapsto> ''forged''],
     screen = [Error ''Reddit login failed: invalid_grant''],
     calls = [Authorize (new_reddit demo_config) ''gc'']\<rparr>) \<and>
   oauth_state waiting_session = Some ''S1'' \<and> ''forged'' \<noteq> ''S1'' \<and>
   handle_youtube_callback demo_env
     (world_of waiting_session [''code'' \<mapsto> ''gc'', ''state'' \<mapsto> ''forged'']) =
   (Continue, world_of waiting_session [''code'' \<mapsto> ''gc'', ''state'' \<mapsto> ''forged'']) \<and>
   fetch_token (demo_env\<lparr>fetch_token := (\<lambda>f code. Inl (OtherError ''invalid_grant''))\<rparr>)
     demo_flow ''gc'' = Inl (OtherError ''invalid_grant'') \<and>
   youtube_credentials (session (snd (handle_youtube_callback
     (demo_env\<lparr>fetch_token := (\<lambda>f code. Inl (OtherError ''invalid_grant''))\<rparr>)
     (world_of waiting_session [''code'' \<mapsto> ''gc'', ''state'' \<mapsto> ''S1''])))) = None"
proof -
  have a: "handle_reddit_callback demo_config
     (demo_env\<lparr>authorize := (\<lambda>r code. Some (OtherError ''invalid_grant''))\<rparr>)
     (world_of waiting_session [''code'' \<mapsto> ''gc'', ''state'' \<mapsto> ''forged'']) =
   (Continue,
    \<lparr>session = waiting_session,
     query_params = [''code'' \<mapsto> ''gc'', ''state'' \<mapsto> ''forged''],
     screen = [Error ''Reddit login failed: invalid_grant''],
     calls = [Authorize (new_reddit demo_config) ''gc'']\<rparr>)"
    using failed_callback_leaves_session_unauthenticated
      [where w = "world_of waiting_session [''code'' \<mapsto> ''gc'', ''state'' \<mapsto> ''forged'']"
        and code = "''gc''" and cfg = demo_config
        and env = "demo_env\<lparr>authorize := (\<lambda>r code. Some (OtherError ''invalid_grant''))\<rparr>"
        and e = "OtherError ''invalid_grant''"]
    by (simp add: world_of_def demo_env_def draw_def called_def)
  have b: "handle_youtube_callback demo_env
     (world_of waiting_session [''code'' \<mapsto> ''gc'', ''state'' \<mapsto> ''forged'']) =
   (Continue, world_of waiting_session [''code'' \<mapsto> ''gc'', ''state'' \<mapsto> ''forged''])"
    using failed_callback_leaves_session_unauthenticated
      [where w = "world_of waiting_session [''code'' \<mapsto> ''gc'', ''state'' \<mapsto> ''forged'']"
        and code = "''gc''" and st = "''forged''" and expected = "''S1''" and env = demo_env]
    by (simp add: world_of_def waiting_session_def)
  have c: "youtube_credentials (session (snd (handle_youtube_callback
     (demo_env\<lparr>fetch_token := (\<lambda>f code. Inl (OtherError ''invalid_grant''))\<rparr>)
     (world_of waiting_session [''code'' \<mapsto> ''gc'', ''state'' \<mapsto> ''S1''])))) = None"
    using failed_callback_leaves_session_unauthenticated
      [where w = "world_of waiting_session [''code'' \<mapsto> ''gc'', ''state'' \<mapsto> ''S1'']"
        and code = "''gc''" and st = "''S1''" and flow = demo_flow
        and env = "demo_env\<lparr>fetch_token := (\<lambda>f code. Inl (OtherError ''invalid_grant''))\<rparr>"
        and e' = "OtherError ''invalid_grant''"]
    by (simp add: world_of_def waiting_session_def fresh_session_def demo_env_def)
  show ?thesis using a b c
    by (simp add: world_of_def waiting_session_def demo_env_def)
qed

subsection \<open>C7: a failing fetch\<close>

lemma youtube_shape_error_demo:
  "sync_content
     (demo_env\<lparr>videos_list := (\<lambda>a. Inr (JObj [(''items'', JArr [JObj [(''id'', JStr ''v1'')]])]))\<rparr>)
     2100 (world_of logged_in_session Map.empty) =
   (Raised (KeyError ''snippet''),
    \<lparr>session = logged_in_session, query_params = Map.empty, screen = [],
     calls = [VideosList (YoutubeApi (Credentials ''token''))]\<rparr>)"
  by (simp add: pass_defs sync_defs fetch_defs demo_defs)

lemma fetch_youtube_http_error:
  "youtube_request env a = Inl (HttpError m) \<Longrightarrow>
   fetch_youtube_saved_videos env a w =
   (Inr [], draw (Error (''Error fetching YouTube videos: '' @ m)) (called (VideosList a) w))"
  by (simp add: fetch_youtube_saved_videos_def)

lemma fetch_reddit_error:
  "saved_listing env r = Inl e \<Longrightarrow>
   fetch_reddit_saved_posts env r w =
   ([], draw (Error (''Error fetching Reddit posts: '' @ exn_str e)) (called (SavedList r) w))"
  by (simp add: fetch_reddit_saved_posts_def)

lemma refresh_reddit_screen:
  "set (screen w) \<subseteq> set (screen (refresh_reddit env w))"
  by (auto simp: refresh_reddit_def fetch_reddit_saved_posts_def draw_def called_def
      split: option.splits sum.splits)

lemma refresh_reddit_videos:
  "youtube_videos (session (refresh_reddit env w)) = youtube_videos (session w)"
  by (auto simp: refresh_reddit_def split: option.splits prod.splits dest: fetch_reddit_session)

lemma refresh_youtube_posts:
  "refresh_youtube env w = (y, w1) \<Longrightarrow> reddit_posts (session w1) = reddit_posts (session w)"
  by (auto simp: refresh_youtube_def split: option.splits prod.splits sum.splits
      dest: fetch_youtube_session)

lemma both_fail_demo:
  "sync_content
     (demo_env\<lparr>videos_list := (\<lambda>a. Inl (HttpError ''403 quotaExceeded'')),
               saved_listing := (\<lambda>r. Inl (OtherError ''received 401 HTTP response''))\<rparr>)
     2100 (world_of (logged_in_session\<lparr>reddit_posts :=
         [\<lparr>post_title = ''T'', post_url = ''/r/x/1'', subreddit = ''x''\<rparr>]\<rparr>) Map.empty) =
   (Continue,
    \<lparr>session = logged_in_session\<lparr>youtube_videos := [], last_sync_time := 2100\<rparr>,
     query_params = Map.empty,
     screen = [Error ''Error fetching YouTube videos: 403 quotaExceeded'',
               Error ''Error fetching Reddit posts: received 401 HTTP response''],
     calls = [VideosList (YoutubeApi (Credentials ''token'')), SavedList demo_reddit]\<rparr>)"
  by (simp add: pass_defs sync_defs fetch_defs demo_defs)

text \<open>
  Claim C7, as stated, fails. \<^verbatim>\<open>fetch_youtube_saved_videos\<close> catches
  \<^verbatim>\<open>HttpError\<close> only. A videos-list answer whose item has no \<^verbatim>\<open>snippet\<close> raises
  \<^verbatim>\<open>KeyError\<close>, which leaves the fetcher and the scheduler: nothing is drawn, the
  video list keeps its entry, the Reddit fetch is not made and \<^verbatim>\<open>last_sync_time\<close>
  stays at 2000.
\<close>

theorem youtube_payload_shape_counterexample:
  "stale 2100 logged_in_session \<and>
   reddit logged_in_session = Some demo_reddit \<and>
   youtube_videos logged_in_session = [demo_video] \<and>
   last_sync_time logged_in_session = 2000 \<and>
   sync_content
     (demo_env\<lparr>videos_list := (\<lambda>a. Inr (JObj [(''items'', JArr [JObj [(''id'', JStr ''v1'')]])]))\<rparr>)
     2100 (world_of logged_in_session Map.empty) =
   (Raised (KeyError ''snippet''),
    \<lparr>session = logged_in_session, query_params = Map.empty, screen = [],
     calls = [VideosList (YoutubeApi (Credentials ''token''))]\<rparr>)"
  using youtube_shape_error_demo
  by (simp add: stale_def logged_in_session_def synced_session_def waiting_session_def
      fresh_session_def)

text \<open>
  Claim C7, amended. In a stale evaluation, a YouTube fetch that fails with
  \<^verbatim>\<open>HttpError\<close> draws the error, empties the video list, is followed by the Reddit
  fetch when a Reddit client is held, and the evaluation stamps the current time. A
  Reddit fetch that fails with any exception, in an evaluation that returns, draws the
  error, empties the post list, comes after the YouTube fetch when an API client is
  held, and the evaluation stamps the current time.
\<close>

theorem caught_fetch_errors_reset_and_stamp:
  "(stale t (session w) \<and> youtube_api (session w) = Some a \<and>
    youtube_request env a = Inl (HttpError m) \<longrightarrow>
      fst (sync_content env t w) = Continue \<and>
      Error (''Error fetching YouTube videos: '' @ m) \<in> set (screen (snd (sync_content env t w))) \<and>
      youtube_videos (session (snd (sync_content env t w))) = [] \<and>
      calls (snd (sync_content env t w)) = calls w @ [VideosList a]
        @ (case reddit (session w) of None \<Rightarrow> [] | Some r \<Rightarrow> [SavedList r]) \<and>
      last_sync_time (session (snd (sync_content env t w))) = t) \<and>
   (stale t (session w) \<and> reddit (session w) = Some r \<and> saved_listing env r = Inl e \<and>
    fst (sync_content env t w) = Continue \<longrightarrow>
      Error (''Error fetching Reddit posts: '' @ exn_str e)
        \<in> set (screen (snd (sync_content env t w))) \<and>
      reddit_posts (session (snd (sync_content env t w))) = [] \<and>
      calls (snd (sync_content env t w)) = calls w
        @ (case youtube_api (session w) of None \<Rightarrow> [] | Some a \<Rightarrow> [VideosList a])
        @ [SavedList r] \<and>
      last_sync_time (session (snd (sync_content env t w))) = t)"
proof (intro conjI impI)
  assume h: "stale t (session w) \<and> youtube_api (session w) = Some a \<and>
    youtube_request env a = Inl (HttpError m)"
  define w1 where "w1 = (draw (Error (''Error fetching YouTube videos: '' @ m))
      (called (VideosList a) w))\<lparr>session := (session w)\<lparr>youtube_videos := []\<rparr>\<rparr>"
  have y: "refresh_youtube env w = (Inr (), w1)"
    using h by (simp add: refresh_youtube_def fetch_youtube_http_error w1_def)
  have s: "sync_content env t w = (Continue, (refresh_reddit env w1)
      \<lparr>session := (session (refresh_reddit env w1))\<lparr>last_sync_time := t\<rparr>\<rparr>)"
    using h y by (simp add: sync_content_def Let_def)
  have e1: "Error (''Error fetching YouTube videos: '' @ m) \<in> set (screen w1)"
    by (simp add: w1_def draw_def)
  have c1: "calls w1 = calls w @ [VideosList a]" by (simp add: w1_def draw_def called_def)
  have r1: "reddit (session w1) = reddit (session w)" by (simp add: w1_def)
  have v1: "youtube_videos (session w1) = []" by (simp add: w1_def)
  show "fst (sync_content env t w) = Continue" using s by simp
  show "Error (''Error fetching YouTube videos: '' @ m) \<in> set (screen (snd (sync_content env t w)))"
    using s e1 refresh_reddit_screen [of w1 env] by auto
  show "youtube_videos (session (snd (sync_content env t w))) = []"
    using s v1 by (simp add: refresh_reddit_videos)
  show "calls (snd (sync_content env t w)) = calls w @ [VideosList a]
        @ (case reddit (session w) of None \<Rightarrow> [] | Some r \<Rightarrow> [SavedList r])"
    using s c1 r1 by (simp add: refresh_reddit_calls)
  show "last_sync_time (session (snd (sync_content env t w))) = t" using s by simp
next
  assume h: "stale t (session w) \<and> reddit (session w) = Some r \<and> saved_listing env r = Inl e \<and>
    fst (sync_content env t w) = Continue"
  obtain w' where s: "sync_content env t w = (Continue, w')"
    using h by (cases "sync_content env t w") simp
  obtain y w1 where y: "refresh_youtube env w = (y, w1)" by (cases "refresh_youtube env w")
  from s h y obtain u where yu: "y = Inr u"
    by (cases y) (auto simp: sync_content_def)
  have w': "w' = (refresh_reddit env w1)
      \<lparr>session := (session (refresh_reddit env w1))\<lparr>last_sync_time := t\<rparr>\<rparr>"
    using s h y yu by (simp add: sync_content_def Let_def)
  have r1: "reddit (session w1) = Some r" using refresh_youtube_frame [OF y] h by simp
  have rr: "refresh_reddit env w1 =
      (draw (Error (''Error fetching Reddit posts: '' @ exn_str e)) (called (SavedList r) w1))
        \<lparr>session := (session w1)\<lparr>reddit_posts := []\<rparr>\<rparr>"
    using r1 h by (simp add: refresh_reddit_def fetch_reddit_error)
  show "Error (''Error fetching Reddit posts: '' @ exn_str e)
        \<in> set (screen (snd (sync_content env t w)))"
    using s w' rr by (simp add: draw_def)
  show "reddit_posts (session (snd (sync_content env t w))) = []"
    using s w' rr by simp
  show "calls (snd (sync_content env t w)) = calls w
        @ (case youtube_api (session w) of None \<Rightarrow> [] | Some a \<Rightarrow> [VideosList a])
        @ [SavedList r]"
    using sync_content_stale_done(1) [OF _ s] h s by simp
  show "last_sync_time (session (snd (sync_content env t w))) = t"
    using s w' by simp
qed

theorem caught_fetch_errors_reset_and_stamp_witness:
  "stale 2100 (session (world_of (logged_in_session\<lparr>reddit_posts :=
         [\<lparr>post_title = ''T'', post_url = ''/r/x/1'', subreddit = ''x''\<rparr>]\<rparr>) Map.empty)) \<and>
   youtube_request
     (demo_env\<lparr>videos_list := (\<lambda>a. Inl (HttpError ''403 quotaExceeded'')),
               saved_listing := (\<lambda>r. Inl (OtherError ''received 401 HTTP response''))\<rparr>)
     (YoutubeApi (Credentials ''token'')) = Inl (HttpError ''403 quotaExceeded'') \<and>
   saved_listing
     (demo_env\<lparr>videos_list := (\<lambda>a. Inl (HttpError ''403 quotaExceeded'')),
               saved_listing := (\<lambda>r. Inl (OtherError ''received 401 HTTP response''))\<rparr>)
     demo_reddit = Inl (OtherError ''received 401 HTTP response'') \<and>
   sync_content
     (demo_env\<lparr>videos_list := (\<lambda>a. Inl (HttpError ''403 quotaExceeded'')),
               saved_listing := (\<lambda>r. Inl (OtherError ''received 401 HTTP response''))\<rparr>)
     2100 (world_of (logged_in_session\<lparr>reddit_posts :=
         [\<lparr>post_title = ''T'', post_url = ''/r/x/1'', subreddit = ''x''\<rparr>]\<rparr>) Map.empty) =
   (Continue,
    \<lparr>session = logged_in_session\<lparr>youtube_videos := [], last_sync_time := 2100\<rparr>,
     query_params = Map.empty,
     screen = [Error ''Error fetching YouTube videos: 403 quotaExceeded'',
               Error ''Error fetching Reddit posts: received 401 HTTP response''],
     calls = [VideosList (YoutubeApi (Credentials ''token'')), SavedList demo_reddit]\<rparr>) \<and>
   youtube_videos (session (snd (sync_content
     (demo_env\<lparr>videos_list := (\<lambda>a. Inl (HttpError ''403 quotaExceeded'')),
               saved_listing := (\<lambda>r. Inl (OtherError ''received 401 HTTP response''))\<rparr>)
     2100 (world_of (logged_in_session\<lparr>reddit_posts :=
         [\<lparr>post_title = ''T'', post_url = ''/r/x/1'', subreddit = ''x''\<rparr>]\<rparr>) Map.empty)))) = [] \<and>
   reddit_posts (session (snd (sync_content
     (demo_env\<lparr>videos_list := (\<lambda>a. Inl (HttpError ''403 quotaExceeded'')),
               saved_listing := (\<lambda>r. Inl (OtherError ''received 401 HTTP response''))\<rparr>)
     2100 (world_of (logged_in_session\<lparr>reddit_posts :=
         [\<lparr>post_title = ''T'', post_url = ''/r/x/1'', subreddit = ''x''\<rparr>]\<rparr>) Map.empty)))) = []"
proof -
  let ?env = "demo_env\<lparr>videos_list := (\<lambda>a. Inl (HttpError ''403 quotaExceeded'')),
               saved_listing := (\<lambda>r. Inl (OtherError ''received 401 HTTP response''))\<rparr>"
  let ?w = "world_of (logged_in_session\<lparr>reddit_posts :=
         [\<lparr>post_title = ''T'', post_url = ''/r/x/1'', subreddit = ''x''\<rparr>]\<rparr>) Map.empty"
  have st: "stale 2100 (session ?w)" by (simp add: stale_def demo_defs)
  have a: "youtube_api (session ?w) = Some (YoutubeApi (Credentials ''token''))"
    and r: "reddit (session ?w) = Some demo_reddit"
    by (simp_all add: demo_defs)
  have yq: "youtube_request ?env (YoutubeApi (Credentials ''token''))
      = Inl (HttpError ''403 quotaExceeded'')"
    by (simp add: youtube_request_def ebind_def demo_env_def)
  have sl: "saved_listing ?env demo_reddit = Inl (OtherError ''received 401 HTTP response'')"
    by (simp add: demo_env_def)
  note T = caught_fetch_errors_reset_and_stamp
    [where t = 2100 and w = ?w and env = ?env and a = "YoutubeApi (Credentials ''token'')"
      and m = "''403 quotaExceeded''" and r = demo_reddit
      and e = "OtherError ''received 401 HTTP response''"]
  have v: "youtube_videos (session (snd (sync_content ?env 2100 ?w))) = []"
    using T st a yq by blast
  have c: "fst (sync_content ?env 2100 ?w) = Continue"
    using T st a yq by blast
  have p: "reddit_posts (session (snd (sync_content ?env 2100 ?w))) = []"
    using T st r sl c by blast
  show ?thesis using st yq sl both_fail_demo v p by blast
qed

subsection \<open>C8: a missing configuration value\<close>









subsection \<open>C9: the rerun a pass asks for by itself\<close>

lemma slow_pass_demo:
  "fst (run_script demo_secrets (demo_env\<lparr>time_sync := 2100, time_autosync := 2160\<rparr>) None
         (world_of logged_in_session Map.empty)) = Rerun"
  by (simp add: run_script_def load_demo pass_defs sync_defs fetch_defs demo_defs)

lemma and_then_cases:
  assumes "and_then f g w = (c, w')" and "c = Rerun \<or> c = Continue"
    and "\<And>c1 w1. f w = (c1, w1) \<Longrightarrow> c1 \<noteq> Rerun"
  obtains w1 where "f w = (Continue, w1)" and "g w1 = (c, w')"
proof -
  obtain c1 w1 where fw: "f w = (c1, w1)" by (cases "f w")
  have "c1 \<noteq> Rerun" using assms(3) fw by blast
  then have "c1 = Continue"
    using assms(1,2) fw by (cases c1) (auto simp: and_then_def)
  then show ?thesis using that fw assms(1) by (simp add: and_then_def)
qed

lemma youtube_tab_no_rerun: "youtube_tab cfg env w = (c, w') \<Longrightarrow> c \<noteq> Rerun"
  by (auto simp: youtube_tab_def youtube_login_def Let_def split: if_splits option.splits)

lemma reddit_tab_no_rerun: "reddit_tab cfg env w = (c, w') \<Longrightarrow> c \<noteq> Rerun"
  by (auto simp: reddit_tab_def reddit_login_def Let_def split: if_splits)

lemma sync_content_no_rerun: "sync_content env t w = (c, w') \<Longrightarrow> c \<noteq> Rerun"
  using sync_content_ctl by blast

lemma sync_now_idle: "sync_now env None w = (c, w') \<Longrightarrow> c \<noteq> Rerun"
  by (auto simp: sync_now_def Let_def)

lemma logout_controls_idle: "logout_controls None w = (c, w') \<Longrightarrow> c \<noteq> Rerun"
  by (auto simp: logout_controls_def Let_def split: if_splits)

lemma auto_sync_rerun:
  "auto_sync env w = (c, w') \<Longrightarrow>
   w' = w \<and> (c = Rerun \<or> c = Continue) \<and>
   (c = Rerun \<longleftrightarrow>
      (youtube_credentials (session w) \<noteq> None \<or> reddit (session w) \<noteq> None) \<and>
      stale (time_autosync env) (session w))"
  by (auto simp: auto_sync_def split: if_splits)

lemma main_app_idle:
  assumes q: "query_params w ''code'' = None"
  shows "main_app cfg env None w =
     and_then (sync_content env (time_sync env))
    (and_then (\<lambda>w. (Continue, draw (Tabs [''YouTube'', ''Reddit'']) w))
    (and_then (youtube_tab cfg env)
    (and_then (reddit_tab cfg env)
    (and_then (sync_now env None)
    (and_then (logout_controls None)
              (auto_sync env))))))
       (draw (Title ''Saved Content Viewer'') w)"
proof -
  have y: "handle_youtube_callback env (draw (Title ''Saved Content Viewer'') w) =
      (Continue, draw (Title ''Saved Content Viewer'') w)"
    using q by (simp add: handle_youtube_callback_def draw_def)
  have r: "handle_reddit_callback cfg env (draw (Title ''Saved Content Viewer'') w) =
      (Continue, draw (Title ''Saved Content Viewer'') w)"
    using q by (simp add: handle_reddit_callback_def draw_def)
  show ?thesis
    unfolding main_app_def
    by (subst and_then_def, simp, subst and_then_def, simp add: y, subst and_then_def,
        simp add: r)
qed

lemma main_app_idle_end:
  assumes q: "query_params w ''code'' = None"
    and run: "main_app cfg env None w = (c, w')"
    and c: "c = Rerun \<or> c = Continue"
  shows "auto_sync env w' = (c, w')"
proof -
  note run' = run [unfolded main_app_idle [OF q]]
  from run' c obtain w1 where
    r1: "and_then (\<lambda>w. (Continue, draw (Tabs [''YouTube'', ''Reddit'']) w))
          (and_then (youtube_tab cfg env)
          (and_then (reddit_tab cfg env)
          (and_then (sync_now env None)
          (and_then (logout_controls None) (auto_sync env))))) w1 = (c, w')"
    by (rule and_then_cases) (auto dest: sync_content_no_rerun)
  from r1 c obtain w2 where
    r2: "and_then (youtube_tab cfg env)
          (and_then (reddit_tab cfg env)
          (and_then (sync_now env None)
          (and_then (logout_controls None) (auto_sync env)))) w2 = (c, w')"
    by (rule and_then_cases) auto
  from r2 c obtain w3 where
    r3: "and_then (reddit_tab cfg env)
          (and_then (sync_now env None)
          (and_then (logout_controls None) (auto_sync env))) w3 = (c, w')"
    by (rule and_then_cases) (auto dest: youtube_tab_no_rerun)
  from r3 c obtain w4 where
    r4: "and_then (sync_now env None)
          (and_then (logout_controls None) (auto_sync env)) w4 = (c, w')"
    by (rule and_then_cases) (auto dest: reddit_tab_no_rerun)
  from r4 c obtain w5 where
    r5: "and_then (logout_controls None) (auto_sync env) w5 = (c, w')"
    by (rule and_then_cases) (auto dest: sync_now_idle)
  from r5 c obtain w6 where r6: "auto_sync env w6 = (c, w')"
    by (rule and_then_cases) (auto dest: logout_controls_idle)
  then show ?thesis using auto_sync_rerun [OF r6] by simp
qed

lemma quick_pass_demo:
  "run_script demo_secrets (demo_env\<lparr>time_sync := 2100, time_autosync := 2101\<rparr>) None
     (world_of logged_in_session Map.empty) =
   (Continue,
    \<lparr>session = logged_in_session\<lparr>reddit_posts :=
         [\<lparr>post_title = ''T'', post_url = ''/r/x/1'', subreddit = ''x''\<rparr>],
         last_sync_time := 2100\<rparr>,
     query_params = Map.empty,
     screen = [Title ''Saved Content Viewer'', Tabs [''YouTube'', ''Reddit''],
               Header ''YouTube Saved Videos'', Image (JStr ''t1.jpg'') 120,
               Markdown ''[A](https://www.youtube.com/watch?v=v1)'', Write ''Last synced: '',
               Header ''Reddit Saved Posts'', Markdown ''**T** (r/x)'',
               Markdown ''[Link](https://reddit.com/r/x/1)'', Write ''Last synced: '',
               SidebarHeader ''Controls'', Button ''Sync Now'', SidebarHeader ''Logout'',
               Button ''Logout YouTube'', Button ''Logout Reddit''],
     calls = [VideosList (YoutubeApi (Credentials ''token'')), SavedList demo_reddit]\<rparr>)"
  by (simp add: run_script_def load_demo pass_defs sync_defs fetch_defs demo_defs)

text \<open>
  Claim C9, as stated, fails. A pass with no button pressed and no query parameters, in
  the logged-in session, whose scheduler evaluation starts at time 2100 and whose last
  line is reached at time 2160, ends by asking for a rerun (line 227).
\<close>

theorem pass_reruns_itself_counterexample:
  "query_params (world_of logged_in_session Map.empty) = Map.empty \<and>
   fst (run_script demo_secrets (demo_env\<lparr>time_sync := 2100, time_autosync := 2160\<rparr>) None
         (world_of logged_in_session Map.empty)) = Rerun"
  using slow_pass_demo by (simp add: world_of_def)

text \<open>
  Claim C9, amended. A pass with no button pressed and no authorization code in the
  query asks for a rerun only at its last line, and only when a provider is logged in
  and at least \<open>sync_interval\<close> has passed since \<^verbatim>\<open>last_sync_time\<close> at that moment;
  a pass that runs to its end with nobody logged in, or less than \<open>sync_interval\<close>
  after the last sync, asks for none.
\<close>

theorem pass_reruns_only_when_logged_in_and_stale:
  assumes idle: "query_params w ''code'' = None"
    and run: "run_script sec env None w = (c, w')"
  shows "(c = Rerun \<longrightarrow>
            (youtube_credentials (session w') \<noteq> None \<or> reddit (session w') \<noteq> None) \<and>
            stale (time_autosync env) (session w')) \<and>
         (c = Continue \<longrightarrow>
            \<not> ((youtube_credentials (session w') \<noteq> None \<or> reddit (session w') \<noteq> None) \<and>
               stale (time_autosync env) (session w')))"
proof (cases "c = Rerun \<or> c = Continue")
  case False
  then show ?thesis by simp
next
  case True
  then obtain cfg where
    cfg: "load_secrets (missing_key_sentence env) (no_secrets_message env) sec = Inr cfg"
    and m: "main_app cfg env None w = (c, w')"
    using run by (auto simp: run_script_def split: sum.splits exn.splits)
  have "auto_sync env w' = (c, w')" using main_app_idle_end [OF idle m True] .
  then show ?thesis using auto_sync_rerun by blast
qed

theorem pass_reruns_only_when_logged_in_and_stale_witness:
  "query_params (world_of logged_in_session Map.empty) ''code'' = None \<and>
   fst (run_script demo_secrets (demo_env\<lparr>time_sync := 2100, time_autosync := 2101\<rparr>) None
     (world_of logged_in_session Map.empty)) = Continue \<and>
   \<not> stale (time_autosync (demo_env\<lparr>time_sync := 2100, time_autosync := 2101\<rparr>))
       (logged_in_session\<lparr>reddit_posts :=
         [\<lparr>post_title = ''T'', post_url = ''/r/x/1'', subreddit = ''x''\<rparr>],
         last_sync_time := 2100\<rparr>)"
proof -
  have idle: "query_params (world_of logged_in_session Map.empty) ''code'' = None"
    by (simp add: world_of_def)
  have cred: "youtube_credentials (logged_in_session\<lparr>reddit_posts :=
         [\<lparr>post_title = ''T'', post_url = ''/r/x/1'', subreddit = ''x''\<rparr>],
         last_sync_time := 2100\<rparr>) \<noteq> None"
    by (simp add: logged_in_session_def synced_session_def)
  have "\<not> ((youtube_credentials (logged_in_session\<lparr>reddit_posts :=
         [\<lparr>post_title = ''T'', post_url = ''/r/x/1'', subreddit = ''x''\<rparr>],
         last_sync_time := 2100\<rparr>) \<noteq> None \<or>
       reddit (logged_in_session\<lparr>reddit_posts :=
         [\<lparr>post_title = ''T'', post_url = ''/r/x/1'', subreddit = ''x''\<rparr>],
         last_sync_time := 2100\<rparr>) \<noteq> None) \<and>
      stale (time_autosync (demo_env\<lparr>time_sync := 2100, time_autosync := 2101\<rparr>))
       (logged_in_session\<lparr>reddit_posts :=
         [\<lparr>post_title = ''T'', post_url = ''/r/x/1'', subreddit = ''x''\<rparr>],
         last_sync_time := 2100\<rparr>))"
    using pass_reruns_only_when_logged_in_and_stale [OF idle quick_pass_demo] by simp
  then have "\<not> stale (time_autosync (demo_env\<lparr>time_sync := 2100, time_autosync := 2101\<rparr>))
       (logged_in_session\<lparr>reddit_posts :=
         [\<lparr>post_title = ''T'', post_url = ''/r/x/1'', subreddit = ''x''\<rparr>],
         last_sync_time := 2100\<rparr>)"
    using cred by blast
  moreover have "fst (run_script demo_secrets
      (demo_env\<lparr>time_sync := 2100, time_autosync := 2101\<rparr>) None
      (world_of logged_in_session Map.empty)) = Continue"
    by (simp add: quick_pass_demo)
  ultimately show ?thesis using idle by blast
qed

subsection \<open>C10: a stale evaluation stamps the time even with nobody logged in\<close>

text \<open>
  Claim C10, as stated, fails in its first half. In the logged-in session, last synced
  at time 2000, the evaluation at time 2100 is stale; its videos-list request times out,
  the exception leaves \<^verbatim>\<open>sync_content\<close>, and \<^verbatim>\<open>last_sync_time\<close> is still 2000.
\<close>

theorem stale_evaluation_not_stamped_counterexample:
  "stale 2100 (session (world_of logged_in_session Map.empty)) \<and>
   last_sync_time (session (world_of logged_in_session Map.empty)) = 2000 \<and>
   fst (sync_content down_env 2100 (world_of logged_in_session Map.empty)) =
     Raised (OtherError ''timed out'') \<and>
   last_sync_time
     (session (snd (sync_content down_env 2100 (world_of logged_in_session Map.empty)))) = 2000"
proof -
  have a: "stale 2100 (session (world_of logged_in_session Map.empty))"
    "last_sync_time (session (world_of logged_in_session Map.empty)) = 2000"
    by (simp_all add: stale_def demo_defs)
  have b: "last_sync_time logged_in_session = 2000"
    by (simp add: demo_defs)
  show ?thesis using a b by (simp add: down_sync_demo)
qed

text \<open>
  Claim C10, amended. A stale evaluation with no API client and no Reddit client makes
  no call and sets \<^verbatim>\<open>last_sync_time\<close> to the current time; every stale evaluation
  whose YouTube fetch raises no exception other than \<^verbatim>\<open>HttpError\<close> returns and sets
  it. After that, an evaluation less than \<open>sync_interval\<close> later changes nothing and
  makes no call, whatever credentials were stored in between.
\<close>

theorem stale_evaluation_stamps_without_credentials:
  "(stale now (session w) \<and> youtube_api (session w) = None \<and> reddit (session w) = None \<longrightarrow>
      sync_content env now w = (Continue, w\<lparr>session := (session w)\<lparr>last_sync_time := now\<rparr>\<rparr>)) \<and>
   (stale now (session w) \<and> \<not> youtube_escapes env (session w) \<longrightarrow>
      fst (sync_content env now w) = Continue \<and>
      last_sync_time (session (snd (sync_content env now w))) = now) \<and>
   (t2 - now < sync_interval (session w) \<longrightarrow>
      sync_content env2 t2
        (w\<lparr>session := (session w)\<lparr>last_sync_time := now, youtube_credentials := yc,
                                   youtube_api := ya, reddit := rd\<rparr>\<rparr>) =
      (Continue,
        w\<lparr>session := (session w)\<lparr>last_sync_time := now, youtube_credentials := yc,
                                  youtube_api := ya, reddit := rd\<rparr>\<rparr>))"
proof (intro conjI impI)
  assume "stale now (session w) \<and> youtube_api (session w) = None \<and> reddit (session w) = None"
  then show "sync_content env now w =
      (Continue, w\<lparr>session := (session w)\<lparr>last_sync_time := now\<rparr>\<rparr>)"
    by (simp add: sync_content_def refresh_youtube_def refresh_reddit_def)
next
  assume h: "stale now (session w) \<and> \<not> youtube_escapes env (session w)"
  then show c: "fst (sync_content env now w) = Continue"
    using sync_content_returns by blast
  obtain w' where "sync_content env now w = (Continue, w')"
    using c by (cases "sync_content env now w") simp
  then show "last_sync_time (session (snd (sync_content env now w))) = now"
    using sync_content_stale_done(2) [of now w env w'] h by simp
next
  assume "t2 - now < sync_interval (session w)"
  then show "sync_content env2 t2
        (w\<lparr>session := (session w)\<lparr>last_sync_time := now, youtube_credentials := yc,
                                   youtube_api := ya, reddit := rd\<rparr>\<rparr>) =
      (Continue,
        w\<lparr>session := (session w)\<lparr>last_sync_time := now, youtube_credentials := yc,
                                  youtube_api := ya, reddit := rd\<rparr>\<rparr>)"
    by (simp add: sync_content_def stale_def)
qed

theorem stale_evaluation_stamps_without_credentials_witness:
  "stale 1000 (session (world_of fresh_session Map.empty)) \<and>
   youtube_api (session (world_of fresh_session Map.empty)) = None \<and>
   reddit (session (world_of fresh_session Map.empty)) = None \<and>
   \<not> youtube_escapes demo_env (session (world_of fresh_session Map.empty)) \<and>
   sync_content demo_env 1000 (world_of fresh_session Map.empty) =
     (Continue, world_of (fresh_session\<lparr>last_sync_time := 1000\<rparr>) Map.empty) \<and>
   (1030::real) - 1000 < sync_interval (session (world_of fresh_session Map.empty)) \<and>
   sync_content demo_env 1030
     (world_of (fresh_session\<lparr>last_sync_time := 1000,
        youtube_credentials := Some (Credentials ''token''),
        youtube_api := Some (get_youtube_api (Credentials ''token'')),
        reddit := Some demo_reddit\<rparr>) Map.empty) =
     (Continue,
      world_of (fresh_session\<lparr>last_sync_time := 1000,
        youtube_credentials := Some (Credentials ''token''),
        youtube_api := Some (get_youtube_api (Credentials ''token'')),
        reddit := Some demo_reddit\<rparr>) Map.empty)"
proof -
  have h1: "stale 1000 (session (world_of fresh_session Map.empty)) \<and>
      youtube_api (session (world_of fresh_session Map.empty)) = None \<and>
      reddit (session (world_of fresh_session Map.empty)) = None"
    by (simp add: stale_def world_of_def fresh_session_def)
  have h2: "(1030::real) - 1000 < sync_interval (session (world_of fresh_session Map.empty))"
    by (simp add: world_of_def fresh_session_def)
  have h3: "\<not> youtube_escapes demo_env (session (world_of fresh_session Map.empty))"
    by (simp add: youtube_escapes_def world_of_def fresh_session_def)
  note T = stale_evaluation_stamps_without_credentials
      [where now = 1000 and w = "world_of fresh_session Map.empty" and env = demo_env
        and ?t2.0 = 1030 and ?env2.0 = demo_env
        and yc = "Some (Credentials ''token'')"
        and ya = "Some (get_youtube_api (Credentials ''token''))"
        and rd = "Some demo_reddit"]
  have a: "sync_content demo_env 1000 (world_of fresh_session Map.empty) =
     (Continue,
      (world_of fresh_session Map.empty)
        \<lparr>session := (session (world_of fresh_session Map.empty))\<lparr>last_sync_time := 1000\<rparr>\<rparr>)"
    using T h1 by blast
  have b: "sync_content demo_env 1030
        ((world_of fresh_session Map.empty)
          \<lparr>session := (session (world_of fresh_session Map.empty))
              \<lparr>last_sync_time := 1000,
               youtube_credentials := Some (Credentials ''token''),
               youtube_api := Some (get_youtube_api (Credentials ''token'')),
               reddit := Some demo_reddit\<rparr>\<rparr>) =
      (Continue,
        (world_of fresh_session Map.empty)
          \<lparr>session := (session (world_of fresh_session Map.empty))
              \<lparr>last_sync_time := 1000,
               youtube_credentials := Some (Credentials ''token''),
               youtube_api := Some (get_youtube_api (Credentials ''token'')),
               reddit := Some demo_reddit\<rparr>\<rparr>)"
    using T h2 by blast
  show ?thesis using a b h1 h2 h3 by (simp add: world_of_def)
qed

end
